theory Spec2Isabelle
  imports Main "HOL-Library.Sublist"
begin

section \<open>Python values used by the three modules\<close>

text \<open>
  Strings are \<open>string\<close> (byte lists); the five non-ASCII pictographs of the rendered
  fragments are written as their UTF-8 bytes.  No property below depends on the length
  of a string that contains one of them.
\<close>

text \<open>
  Exceptions are values.  \<open>IndexError\<close>, \<open>KeyError\<close>, \<open>FileNotFoundError\<close>,
  \<open>ValueError\<close> and \<open>NotADirectoryError\<close> are the ones the modules raise themselves
  (by a \<open>raise\<close> statement, by \<open>messages[-1]\<close> on an empty list, or by reading a missing
  dictionary key); \<open>ExternalError\<close> stands for any exception raised inside a collaborator
  (the language model, the vector store, a document loader, the text splitter, the file
  system), carrying its message.
\<close>

datatype exn =
    IndexError string
  | KeyError string
  | FileNotFoundError string
  | ValueError string
  | NotADirectoryError string
  | ExternalError string

text \<open>\<open>str(e)\<close>: the message; a \<open>KeyError\<close> prints its key quoted.\<close>

fun str_exn :: "exn \<Rightarrow> string" where
  "str_exn (IndexError m) = m"
| "str_exn (KeyError k) = [CHR 0x27] @ k @ [CHR 0x27]"
| "str_exn (FileNotFoundError m) = m"
| "str_exn (ValueError m) = m"
| "str_exn (NotADirectoryError m) = m"
| "str_exn (ExternalError m) = m"

text \<open>\<open>sep.join(xs)\<close>.\<close>

fun join :: "string \<Rightarrow> string list \<Rightarrow> string" where
  "join sep [] = []"
| "join sep [x] = x"
| "join sep (x # y # ys) = x @ sep @ join sep (y # ys)"

text \<open>\<open>str(n)\<close> for a natural number, as the f-strings render \<open>len(docs)\<close>.\<close>

definition digit :: "nat \<Rightarrow> char" where
  "digit d = (if d = 0 then CHR ''0'' else if d = 1 then CHR ''1'' else if d = 2 then CHR ''2''
     else if d = 3 then CHR ''3'' else if d = 4 then CHR ''4'' else if d = 5 then CHR ''5''
     else if d = 6 then CHR ''6'' else if d = 7 then CHR ''7'' else if d = 8 then CHR ''8''
     else CHR ''9'')"

fun str_nat :: "nat \<Rightarrow> string" where
  "str_nat n = (if n < 10 then [digit n] else str_nat (n div 10) @ [digit (n mod 10)])"

text \<open>
  A Python \<open>dict\<close> keeps insertion order: assigning to a key that is present replaces the
  value in place, assigning to a new key appends the entry.
\<close>

fun dict_set :: "'k \<Rightarrow> 'v \<Rightarrow> ('k \<times> 'v) list \<Rightarrow> ('k \<times> 'v) list" where
  "dict_set k v [] = [(k, v)]"
| "dict_set k v ((k', v') # d) = (if k' = k then (k, v) # d else (k', v') # dict_set k v d)"

definition keys :: "('k \<times> 'v) list \<Rightarrow> 'k list" where
  "keys d = map fst d"


text \<open>A langchain \<open>Document\<close>: its text and its metadata dictionary.\<close>

record document =
  page_content :: string
  metadata :: "(string \<times> string) list"

section \<open>main.py: the agent state and the four agents\<close>

text \<open>
  \<open>AgentState\<close> is a dictionary; the agents also store the keys \<open>query\<close>, \<open>analysis\<close>,
  \<open>draft\<close>, \<open>feedback\<close> and \<open>final_response\<close> in it.  A key that may be absent is an
  \<open>option\<close> field (\<open>None\<close>: the key is not in the dictionary).  \<open>messages\<close> holds the
  \<open>content\<close> of each message.  The fields carry the prefix \<open>st_\<close>, since \<open>context\<close> is a
  reserved word here.  No agent writes \<open>research_summary\<close> or \<open>final_answer\<close>; the final
  text is stored under \<open>final_response\<close>.
\<close>

record agent_state =
  st_messages :: "string list"
  st_current_step :: "string option"
  st_context :: "string option"
  st_research_summary :: "string option"
  st_final_answer :: "string option"
  st_agent_outputs :: "(string \<times> string) list option"
  st_query :: "string option"
  st_analysis :: "string option"
  st_draft :: "string option"
  st_feedback :: "string option"
  st_final_response :: "string option"

text \<open>The constant \<open>END\<close> of the graph library.\<close>

definition END :: string where
  "END = ''__end__''"

text \<open>\<open>state.get(key, "")\<close>.\<close>

definition get_str :: "string option \<Rightarrow> string" where
  "get_str v = (case v of None \<Rightarrow> [] | Some s \<Rightarrow> s)"

subsection \<open>The f-strings\<close>

definition retriever_fragment :: "nat \<Rightarrow> string \<Rightarrow> string" where
  "retriever_fragment n context =
     ''<details open>\<newline>''
     @ ''<summary>### ''
     @ [CHR 0xF0, CHR 0x9F, CHR 0x93, CHR 0x9A]
     @ '' Retrieved Documents</summary>\<newline>''
     @ ''\<newline>''
     @ ''Found ''
     @ str_nat n
     @ '' relevant documents.\<newline>''
     @ ''\<newline>''
     @ ''<details>\<newline>''
     @ ''<summary>Document Content</summary>\<newline>''
     @ ''\<newline>''
     @ ''```\<newline>''
     @ context
     @ ''\<newline>''
     @ ''```\<newline>''
     @ ''\<newline>''
     @ ''</details>\<newline>''
     @ ''\<newline>''
     @ ''</details>\<newline>''"

definition analysis_prompt :: "string \<Rightarrow> string \<Rightarrow> string" where
  "analysis_prompt query context =
     ''Analyze this query and context, identifying key points and relationships:\<newline>''
     @ ''\<newline>''
     @ ''Query: ''
     @ query
     @ ''\<newline>''
     @ ''\<newline>''
     @ ''Context: ''
     @ context"

definition research_fragment :: "string \<Rightarrow> string \<Rightarrow> string" where
  "research_fragment analysis query =
     ''<details open>\<newline>''
     @ ''<summary>### ''
     @ [CHR 0xF0, CHR 0x9F, CHR 0x94, CHR 0x8D]
     @ '' Research Analysis</summary>\<newline>''
     @ ''\<newline>''
     @ analysis
     @ ''\<newline>''
     @ ''\<newline>''
     @ ''<details>\<newline>''
     @ ''<summary>Analysis Details</summary>\<newline>''
     @ ''\<newline>''
     @ ''- Query: ''
     @ query
     @ ''\<newline>''
     @ ''- Context Analysis: Present\<newline>''
     @ ''- Key Points Identified\<newline>''
     @ ''- Relationships Mapped\<newline>''
     @ ''\<newline>''
     @ ''</details>\<newline>''
     @ ''\<newline>''
     @ ''</details>\<newline>''"

definition draft_prompt :: "string \<Rightarrow> string \<Rightarrow> string \<Rightarrow> string" where
  "draft_prompt query context analysis =
     ''Draft a comprehensive response that addresses this query using the context and analysis:\<newline>''
     @ ''\<newline>''
     @ ''Query: ''
     @ query
     @ ''\<newline>''
     @ ''Context: ''
     @ context
     @ ''\<newline>''
     @ ''Analysis: ''
     @ analysis"

definition writer_fragment :: "string \<Rightarrow> string" where
  "writer_fragment draft =
     ''<details open>\<newline>''
     @ ''<summary>### ''
     @ [CHR 0xE2, CHR 0x9C, CHR 0x8D]
     @ [CHR 0xEF, CHR 0xB8, CHR 0x8F]
     @ '' Initial Draft</summary>\<newline>''
     @ ''\<newline>''
     @ draft
     @ ''\<newline>''
     @ ''\<newline>''
     @ ''<details>\<newline>''
     @ ''<summary>Writing Process</summary>\<newline>''
     @ ''\<newline>''
     @ ''1. Analyzed query requirements\<newline>''
     @ ''2. Incorporated context\<newline>''
     @ ''3. Applied research insights\<newline>''
     @ ''4. Structured response\<newline>''
     @ ''\<newline>''
     @ ''</details>\<newline>''
     @ ''\<newline>''
     @ ''</details>\<newline>''"

definition feedback_prompt :: "string \<Rightarrow> string \<Rightarrow> string \<Rightarrow> string \<Rightarrow> string" where
  "feedback_prompt query context analysis draft =
     ''Review this draft response and provide specific feedback:\<newline>''
     @ ''        Query: ''
     @ query
     @ ''\<newline>''
     @ ''        Context: ''
     @ context
     @ ''\<newline>''
     @ ''        Analysis: ''
     @ analysis
     @ ''\<newline>''
     @ ''        Draft: ''
     @ draft
     @ ''\<newline>''
     @ ''        \<newline>''
     @ ''        Provide feedback on:\<newline>''
     @ ''        1. Accuracy and factual correctness\<newline>''
     @ ''        2. Completeness of response\<newline>''
     @ ''        3. Clarity and structure\<newline>''
     @ ''        4. Areas for improvement\<newline>''
     @ ''        ''"

definition final_prompt :: "string \<Rightarrow> string \<Rightarrow> string \<Rightarrow> string" where
  "final_prompt query draft feedback =
     ''Create a final polished response incorporating this feedback:\<newline>''
     @ ''        Original Query: ''
     @ query
     @ ''\<newline>''
     @ ''        Draft: ''
     @ draft
     @ ''\<newline>''
     @ ''        Feedback: ''
     @ feedback
     @ ''\<newline>''
     @ ''        \<newline>''
     @ ''        Requirements:\<newline>''
     @ ''        1. Address all feedback points\<newline>''
     @ ''        2. Maintain clear structure\<newline>''
     @ ''        3. Ensure completeness\<newline>''
     @ ''        4. Polish language and flow\<newline>''
     @ ''        ''"

definition critic_fragment :: "string \<Rightarrow> string" where
  "critic_fragment feedback =
     ''<details open>\<newline>''
     @ ''<summary>### ''
     @ [CHR 0xF0, CHR 0x9F, CHR 0x8E, CHR 0xAF]
     @ '' Review & Refinement</summary>\<newline>''
     @ ''\<newline>''
     @ ''<details>\<newline>''
     @ ''<summary>Feedback Summary</summary>\<newline>''
     @ ''\<newline>''
     @ feedback
     @ ''\<newline>''
     @ ''\<newline>''
     @ ''</details>\<newline>''
     @ ''\<newline>''
     @ ''<details>\<newline>''
     @ ''<summary>Review Process</summary>\<newline>''
     @ ''\<newline>''
     @ ''- Evaluated accuracy and completeness\<newline>''
     @ ''- Assessed clarity and structure\<newline>''
     @ ''- Identified improvements\<newline>''
     @ ''- Refined content and flow\<newline>''
     @ ''\<newline>''
     @ ''</details>\<newline>''
     @ ''\<newline>''
     @ ''</details>\<newline>''"

definition response_fragment :: "string \<Rightarrow> string" where
  "response_fragment final =
     ''<details open>\<newline>''
     @ ''<summary>### ''
     @ [CHR 0xF0, CHR 0x9F, CHR 0x8E, CHR 0xAC]
     @ '' Final Response</summary>\<newline>''
     @ ''\<newline>''
     @ final
     @ ''\<newline>''
     @ ''\<newline>''
     @ ''---\<newline>''
     @ ''*Generated using multi-agent processing with context-aware analysis.*\<newline>''
     @ ''\<newline>''
     @ ''</details>\<newline>''"

subsection \<open>The agents\<close>

text \<open>
  The two collaborators are parameters: \<open>vectorstore query k\<close> is
  \<open>vectorstore.similarity_search(query, k=k)\<close> and \<open>llm prompt\<close> is \<open>llm.invoke(prompt)\<close>;
  either returns its value (\<open>Inr\<close>) or raises (\<open>Inl\<close>).  Within one run the four prompts
  differ in their fixed first line, so a function of the prompt covers any sequence of four
  answers.  An agent mutates the dictionary it is given and returns it; the model returns
  the exception raised, if any, together with the dictionary as mutated up to that point.
  The \<open>print\<close> calls are not modelled.
\<close>

type_synonym agent = "agent_state \<Rightarrow> exn option \<times> agent_state"

definition retriever_agent :: "(string \<Rightarrow> nat \<Rightarrow> exn + document list) \<Rightarrow> agent" where
  "retriever_agent vectorstore state =
     (case st_messages state of
        [] \<Rightarrow> (Some (IndexError ''list index out of range''), state)
      | _ # _ \<Rightarrow>
          (let query = last (st_messages state) in
           case vectorstore query 3 of
             Inl e \<Rightarrow> (Some e, state)
           | Inr docs \<Rightarrow>
               (let context = join ''\<newline>\<newline>'' (map page_content docs);
                    outputs = (case st_agent_outputs state of None \<Rightarrow> [] | Some d \<Rightarrow> d);
                    response = retriever_fragment (length docs) context
                in (None, state\<lparr>st_current_step := Some ''researcher'',
                                 st_context := Some context,
                                 st_query := Some query,
                                 st_agent_outputs := Some (dict_set ''retriever'' response outputs)\<rparr>))))"

text \<open>
  The opening lines shared by the three later agents:
  \<^verbatim>\<open>query = state.get("query")\<close>, and when that is missing or empty,
  \<^verbatim>\<open>query = state["messages"][-1].content; state["query"] = query\<close>.
\<close>

definition get_query :: "agent_state \<Rightarrow> exn + string \<times> agent_state" where
  "get_query state =
     (if (case st_query state of None \<Rightarrow> False | Some q \<Rightarrow> q \<noteq> [])
      then Inr (get_str (st_query state), state)
      else (case st_messages state of
              [] \<Rightarrow> Inl (IndexError ''list index out of range'')
            | _ # _ \<Rightarrow> Inr (last (st_messages state),
                           state\<lparr>st_query := Some (last (st_messages state))\<rparr>)))"

definition researcher_agent :: "(string \<Rightarrow> exn + string) \<Rightarrow> agent" where
  "researcher_agent llm state =
     (case get_query state of
        Inl e \<Rightarrow> (Some e, state)
      | Inr (query, state1) \<Rightarrow>
          (let context = get_str (st_context state1) in
           case llm (analysis_prompt query context) of
             Inl e \<Rightarrow> (Some e, state1)
           | Inr analysis \<Rightarrow>
               (let response = research_fragment analysis query;
                    state2 = state1\<lparr>st_current_step := Some ''writer'',
                                    st_analysis := Some analysis\<rparr>
                in case st_agent_outputs state2 of
                     None \<Rightarrow> (Some (KeyError ''agent_outputs''), state2)
                   | Some d \<Rightarrow>
                       (None, state2\<lparr>st_agent_outputs := Some (dict_set ''research'' response d)\<rparr>))))"

definition writer_agent :: "(string \<Rightarrow> exn + string) \<Rightarrow> agent" where
  "writer_agent llm state =
     (case get_query state of
        Inl e \<Rightarrow> (Some e, state)
      | Inr (query, state1) \<Rightarrow>
          (let context = get_str (st_context state1);
               analysis = get_str (st_analysis state1) in
           case llm (draft_prompt query context analysis) of
             Inl e \<Rightarrow> (Some e, state1)
           | Inr draft \<Rightarrow>
               (let response = writer_fragment draft;
                    state2 = state1\<lparr>st_current_step := Some ''critic'',
                                    st_draft := Some draft\<rparr>
                in case st_agent_outputs state2 of
                     None \<Rightarrow> (Some (KeyError ''agent_outputs''), state2)
                   | Some d \<Rightarrow>
                       (None, state2\<lparr>st_agent_outputs := Some (dict_set ''writer'' response d)\<rparr>))))"

definition critic_agent :: "(string \<Rightarrow> exn + string) \<Rightarrow> agent" where
  "critic_agent llm state =
     (case get_query state of
        Inl e \<Rightarrow> (Some e, state)
      | Inr (query, state1) \<Rightarrow>
          (let draft = get_str (st_draft state1);
               context = get_str (st_context state1);
               analysis = get_str (st_analysis state1) in
           case llm (feedback_prompt query context analysis draft) of
             Inl e \<Rightarrow> (Some e, state1)
           | Inr feedback \<Rightarrow>
               (case llm (final_prompt query draft feedback) of
                  Inl e \<Rightarrow> (Some e, state1)
                | Inr final \<Rightarrow>
                    (let state2 = state1\<lparr>st_current_step := Some END,
                                         st_feedback := Some feedback,
                                         st_final_response := Some final\<rparr>
                     in case st_agent_outputs state2 of
                          None \<Rightarrow> (Some (KeyError ''agent_outputs''), state2)
                        | Some d \<Rightarrow>
                            (None, state2\<lparr>st_agent_outputs :=
                               Some (dict_set ''response'' (response_fragment final)
                                      (dict_set ''critic'' (critic_fragment feedback) d))\<rparr>)))))"

subsection \<open>The graph\<close>

text \<open>
  \<open>StateGraph\<close>, \<open>add_node\<close>, \<open>add_edge\<close>, \<open>set_entry_point\<close> and \<open>compile\<close> belong to the
  graph library.  The model keeps what the calls of main.py record (named nodes, directed
  edges, an entry point) and runs a compiled graph the way the library runs a graph whose
  nodes have at most one successor: the entry node first, then the node its edge leads to,
  until a node has no outgoing edge or raises.  The graph is built over \<open>AgentState\<close> and
  carries the six keys that class declares, \<open>messages\<close>, \<open>current_step\<close>, \<open>context\<close>,
  \<open>research_summary\<close>, \<open>final_answer\<close> and \<open>agent_outputs\<close>: of the dictionary a node
  returns, and of the input, only these reach the next node and the result, so the keys
  \<open>query\<close>, \<open>analysis\<close>, \<open>draft\<close>, \<open>feedback\<close> and \<open>final_response\<close> an agent stores are
  gone when the next agent runs.  A run is the list of the nodes entered, each with the
  exception it raised, if any, and the dictionary it left.  A graph with a cycle of edges
  may run forever, hence the \<open>option\<close>.
\<close>

text \<open>What the graph keeps of a dictionary: the keys \<open>AgentState\<close> declares.\<close>

definition declared :: "agent_state \<Rightarrow> agent_state" where
  "declared state =
     state\<lparr>st_query := None, st_analysis := None, st_draft := None, st_feedback := None,
            st_final_response := None\<rparr>"

record graph =
  nodes :: "(string \<times> agent) list"
  edges :: "(string \<times> string) list"
  entry_point :: "string option"

definition StateGraph :: graph where
  "StateGraph = \<lparr>nodes = [], edges = [], entry_point = None\<rparr>"

definition add_node :: "string \<Rightarrow> agent \<Rightarrow> graph \<Rightarrow> graph" where
  "add_node name f g = g\<lparr>nodes := nodes g @ [(name, f)]\<rparr>"

definition add_edge :: "string \<Rightarrow> string \<Rightarrow> graph \<Rightarrow> graph" where
  "add_edge a b g = g\<lparr>edges := edges g @ [(a, b)]\<rparr>"

definition set_entry_point :: "string \<Rightarrow> graph \<Rightarrow> graph" where
  "set_entry_point name g = g\<lparr>entry_point := Some name\<rparr>"

definition workflow ::
  "(string \<Rightarrow> nat \<Rightarrow> exn + document list) \<Rightarrow> (string \<Rightarrow> exn + string) \<Rightarrow> graph" where
  "workflow vectorstore llm =
     set_entry_point ''retriever''
      (add_edge ''writer'' ''critic''
        (add_edge ''researcher'' ''writer''
          (add_edge ''retriever'' ''researcher''
            (add_node ''critic'' (critic_agent llm)
              (add_node ''writer'' (writer_agent llm)
                (add_node ''researcher'' (researcher_agent llm)
                  (add_node ''retriever'' (retriever_agent vectorstore) StateGraph)))))))"

type_synonym step = "string \<times> exn option \<times> agent_state"

partial_function (option) run_from ::
  "graph \<Rightarrow> string \<Rightarrow> agent_state \<Rightarrow> step list \<Rightarrow> step list option" where
  "run_from g name state log =
     (case map_of (nodes g) name of
        None \<Rightarrow> Some (log @ [(name, Some (ValueError name), state)])
      | Some node \<Rightarrow>
          (case node state of
             (Some e, state') \<Rightarrow> Some (log @ [(name, Some e, state')])
           | (None, state') \<Rightarrow>
               (case map_of (edges g) name of
                  None \<Rightarrow> Some (log @ [(name, None, state')])
                | Some next_node \<Rightarrow>
                    run_from g next_node (declared state') (log @ [(name, None, state')]))))"

definition invoke :: "graph \<Rightarrow> agent_state \<Rightarrow> step list option" where
  "invoke g input =
     (case entry_point g of
        None \<Rightarrow> Some []
      | Some name \<Rightarrow> run_from g name (declared input) [])"

text \<open>\<open>chain = workflow.compile()\<close>.\<close>

definition chain ::
  "(string \<Rightarrow> nat \<Rightarrow> exn + document list) \<Rightarrow> (string \<Rightarrow> exn + string) \<Rightarrow> graph" where
  "chain vectorstore llm = workflow vectorstore llm"

text \<open>What \<open>chain.invoke(input)\<close> hands to its caller: the exception, or the declared keys
  of the last dictionary.\<close>

definition outcome :: "agent_state \<Rightarrow> step list \<Rightarrow> exn + agent_state" where
  "outcome input log =
     (case log of
        [] \<Rightarrow> Inr (declared input)
      | _ # _ \<Rightarrow>
          (case last log of (_, Some e, _) \<Rightarrow> Inl e | (_, None, s) \<Rightarrow> Inr (declared s)))"

section \<open>api.py: the query endpoint\<close>


text \<open>The dictionary \<^verbatim>\<open>{"messages": [message]}\<close> the endpoint passes to the chain.\<close>

definition api_input :: "string \<Rightarrow> agent_state" where
  "api_input query =
     \<lparr>st_messages = [query], st_current_step = None, st_context = None,
      st_research_summary = None, st_final_answer = None, st_agent_outputs = None,
      st_query = None, st_analysis = None, st_draft = None, st_feedback = None,
      st_final_response = None\<rparr>"

text \<open>The dictionary the test at the end of main.py passes to the chain.\<close>

definition main_input :: "string \<Rightarrow> agent_state" where
  "main_input test_query =
     \<lparr>st_messages = [test_query], st_current_step = Some ''retriever'', st_context = Some [],
      st_research_summary = Some [], st_final_answer = Some [], st_agent_outputs = Some [],
      st_query = None, st_analysis = None, st_draft = None, st_feedback = None,
      st_final_response = None\<rparr>"

text \<open>\<^verbatim>\<open>result.get("agent_outputs", {})\<close>.\<close>

definition agent_outputs_of :: "agent_state \<Rightarrow> (string \<times> string) list" where
  "agent_outputs_of result = (case st_agent_outputs result of None \<Rightarrow> [] | Some d \<Rightarrow> d)"

text \<open>
  \<^verbatim>\<open>chain.invoke({"messages": [message]})\<close> as the endpoint calls it: the exception or the
  final dictionary; \<open>None\<close> would be a chain that never returns.
\<close>

definition execute ::
  "(string \<Rightarrow> nat \<Rightarrow> exn + document list) \<Rightarrow> (string \<Rightarrow> exn + string) \<Rightarrow> string
     \<Rightarrow> (exn + agent_state) option" where
  "execute vectorstore llm query =
     map_option (outcome (api_input query)) (invoke (chain vectorstore llm) (api_input query))"


section \<open>processor.py: ingestion\<close>

subsection \<open>Paths\<close>

text \<open>
  A path is the string \<open>str(Path(p))\<close>, in the normal form pathlib prints, with \<open>/\<close> as the
  separator.  \<open>path_name\<close> is \<open>Path.name\<close>, the last component; \<open>path_suffix\<close> is
  \<open>Path.suffix\<close>: the name from its last dot on, unless that dot is the first or the last
  character of the name.
\<close>

definition path_name :: "string \<Rightarrow> string" where
  "path_name p = rev (takeWhile (\<lambda>c. c \<noteq> CHR ''/'') (rev p))"

definition path_suffix :: "string \<Rightarrow> string" where
  "path_suffix p =
     (let name = path_name p;
          after = rev (takeWhile (\<lambda>c. c \<noteq> CHR ''.'') (rev name));
          upto = dropWhile (\<lambda>c. c \<noteq> CHR ''.'') (rev name)
      in if 1 < length upto \<and> after \<noteq> [] then CHR ''.'' # after else [])"

text \<open>
  \<open>str.lower()\<close> on the ASCII letters; no other character lowers to a letter of a supported
  extension, so membership in \<open>SUPPORTED_EXTENSIONS\<close> is decided as in Python.
\<close>

definition lower_char :: "char \<Rightarrow> char" where
  "lower_char c =
     (case map_of (zip ''ABCDEFGHIJKLMNOPQRSTUVWXYZ'' ''abcdefghijklmnopqrstuvwxyz'') c of
        None \<Rightarrow> c
      | Some l \<Rightarrow> l)"

definition lower :: "string \<Rightarrow> string" where
  "lower s = map lower_char s"

subsection \<open>Collaborators and the state they hold\<close>

datatype loader = PyPDFLoader | TextLoader | UnstructuredMarkdownLoader

text \<open>The arguments \<open>__init__\<close> gives the text splitter.\<close>

record text_splitter =
  chunk_size :: nat
  chunk_overlap :: nat

text \<open>
  What the module reads and calls is a parameter: the file system (\<open>fs_entries dir ext\<close>
  is what the walk of \<open>dir\<close> for the pattern of \<open>ext\<close> yields before names are matched,
  files and directories at any depth, or the exception the walk raises), the loaders, the
  splitter, the vector store (\<open>add_documents held batch\<close> raises or not, given the batches
  held so far), the clock (\<open>now_isoformat n\<close> is the text of the \<open>n\<close>-th reading), and the
  console (\<open>console text\<close> is the exception \<open>print(text)\<close> raises, if any, as a strict
  standard output does for a file name it cannot encode; what is written is not kept).
\<close>

record env =
  fs_exists :: "string \<Rightarrow> bool"
  fs_is_dir :: "string \<Rightarrow> bool"
  fs_entries :: "string \<Rightarrow> string \<Rightarrow> exn + string list"
  loader_load :: "loader \<Rightarrow> string \<Rightarrow> exn + document list"
  split_documents :: "text_splitter \<Rightarrow> document list \<Rightarrow> exn + document list"
  add_documents :: "document list list \<Rightarrow> document list \<Rightarrow> exn option"
  now_isoformat :: "nat \<Rightarrow> string"
  console :: "string \<Rightarrow> exn option"

text \<open>
  What ingestion changes: the batches handed to \<open>vectorstore.add_documents\<close>, one list of
  chunks per call, in call order, and the number of clock readings so far.
\<close>

record world =
  store :: "document list list"
  clock_reads :: nat

subsection \<open>The Processor\<close>

definition SUPPORTED_EXTENSIONS :: "(string \<times> loader) list" where
  "SUPPORTED_EXTENSIONS =
     [(''.pdf'', PyPDFLoader), (''.txt'', TextLoader), (''.md'', UnstructuredMarkdownLoader)]"

record processor =
  splitter :: text_splitter

definition Processor :: processor where
  "Processor = \<lparr>splitter = \<lparr>chunk_size = 1000, chunk_overlap = 200\<rparr>\<rparr>"

text \<open>\<open>path.glob(f"**/*{ext}")\<close>: the entries whose name matches \<open>*ext\<close>, that is, ends with
  \<open>ext\<close>.\<close>

definition glob :: "env \<Rightarrow> string \<Rightarrow> string \<Rightarrow> exn + string list" where
  "glob e dir ext =
     (case fs_entries e dir ext of
        Inl x \<Rightarrow> Inl x
      | Inr entries \<Rightarrow> Inr (filter (\<lambda>p. suffix ext (path_name p)) entries))"

text \<open>\<open>str(list(d.keys()))\<close> for string keys without quotes or escapes.\<close>

definition repr_keys :: "string list \<Rightarrow> string" where
  "repr_keys ks = ''['' @ join '', '' (map (\<lambda>k. [CHR 0x27] @ k @ [CHR 0x27]) ks) @ '']''"

text \<open>\<open>doc.metadata.update({...})\<close>, the four keys in the order of the literal.\<close>

definition update_metadata ::
  "string \<Rightarrow> string option \<Rightarrow> string \<Rightarrow> document \<Rightarrow> document" where
  "update_metadata path document_type stamp doc =
     doc\<lparr>metadata :=
       dict_set ''date_processed'' stamp
        (dict_set ''type''
           (case document_type of None \<Rightarrow> ''general''
            | Some t \<Rightarrow> if t = [] then ''general'' else t)
          (dict_set ''filename'' (path_name path)
            (dict_set ''source'' path (metadata doc))))\<rparr>"

text \<open>The loop over the loaded documents; each turn reads the clock once.\<close>

fun add_metadata ::
  "env \<Rightarrow> string \<Rightarrow> string option \<Rightarrow> document list \<Rightarrow> nat \<Rightarrow> document list \<times> nat" where
  "add_metadata e path document_type [] n = ([], n)"
| "add_metadata e path document_type (doc # docs) n =
     (let (rest, n') = add_metadata e path document_type docs (Suc n)
      in (update_metadata path document_type (now_isoformat e n) doc # rest, n'))"

text \<open>The body of the \<open>try\<close> of \<open>process_document\<close>: what it returns or raises, and the state
  it leaves.  Its two \<open>print\<close> calls stand where the source has them.\<close>

definition process_document_try ::
  "env \<Rightarrow> processor \<Rightarrow> string \<Rightarrow> string option \<Rightarrow> world \<Rightarrow> (exn + bool) \<times> world" where
  "process_document_try e self file_path document_type w =
     (if \<not> fs_exists e file_path
      then (Inl (FileNotFoundError (''File not found: '' @ file_path)), w)
      else
        (let ext = lower (path_suffix file_path) in
         case map_of SUPPORTED_EXTENSIONS ext of
           None \<Rightarrow>
             (Inl (ValueError (''Unsupported file type: '' @ ext @ ''. Supported types: ''
                     @ repr_keys (keys SUPPORTED_EXTENSIONS))), w)
         | Some loader_class \<Rightarrow>
             (case console e (''Processing '' @ path_name file_path @ ''...'') of
                Some x \<Rightarrow> (Inl x, w)
              | None \<Rightarrow>
                  (case loader_load e loader_class file_path of
                     Inl x \<Rightarrow> (Inl x, w)
                   | Inr documents \<Rightarrow>
                       (let (documents', n) =
                              add_metadata e file_path document_type documents (clock_reads w);
                            w1 = w\<lparr>clock_reads := n\<rparr>
                        in case split_documents e (splitter self) documents' of
                             Inl x \<Rightarrow> (Inl x, w1)
                           | Inr splits \<Rightarrow>
                               (case add_documents e (store w1) splits of
                                  Some x \<Rightarrow> (Inl x, w1)
                                | None \<Rightarrow>
                                    (let w2 = w1\<lparr>store := store w1 @ [splits]\<rparr> in
                                     case console e (''Successfully processed ''
                                            @ path_name file_path @ '' (''
                                            @ str_nat (length splits) @ '' chunks created)'') of
                                       Some x \<Rightarrow> (Inl x, w2)
                                     | None \<Rightarrow> (Inr True, w2))))))))"

text \<open>
  \<open>process_document\<close>: the handler of \<open>except Exception\<close> prints the error and returns
  \<open>False\<close>; an exception of that \<open>print\<close> is raised out of \<open>process_document\<close>.
\<close>

definition process_document ::
  "env \<Rightarrow> processor \<Rightarrow> string \<Rightarrow> string option \<Rightarrow> world \<Rightarrow> (exn + bool) \<times> world" where
  "process_document e self file_path document_type w =
     (case process_document_try e self file_path document_type w of
        (Inr b, w') \<Rightarrow> (Inr b, w')
      | (Inl x, w') \<Rightarrow>
          (case console e (''Error processing document '' @ file_path @ '': '' @ str_exn x) of
             None \<Rightarrow> (Inr False, w')
           | Some y \<Rightarrow> (Inl y, w')))"

record stats =
  total :: nat
  successful :: nat
  failed :: nat

text \<open>The inner loop of \<open>process_directory\<close>, over the files of one extension; an exception
  out of \<open>process_document\<close> ends it with the statistics as they are.\<close>

fun process_files ::
  "env \<Rightarrow> processor \<Rightarrow> string option \<Rightarrow> string list \<Rightarrow> stats \<times> world
     \<Rightarrow> exn option \<times> stats \<times> world" where
  "process_files e self document_type [] (st, w) = (None, st, w)"
| "process_files e self document_type (file_path # files) (st, w) =
     (case process_document e self file_path document_type w of
        (Inl x, w') \<Rightarrow> (Some x, st, w')
      | (Inr True, w') \<Rightarrow>
          process_files e self document_type files (st\<lparr>successful := successful st + 1\<rparr>, w')
      | (Inr False, w') \<Rightarrow>
          process_files e self document_type files (st\<lparr>failed := failed st + 1\<rparr>, w'))"

text \<open>The outer loop, over the items of \<open>SUPPORTED_EXTENSIONS\<close>; an exception of the walk or
  out of the inner loop ends it with the statistics as they are.\<close>

fun process_extensions ::
  "env \<Rightarrow> processor \<Rightarrow> string \<Rightarrow> string option \<Rightarrow> (string \<times> loader) list \<Rightarrow> stats \<times> world
     \<Rightarrow> exn option \<times> stats \<times> world" where
  "process_extensions e self dir document_type [] (st, w) = (None, st, w)"
| "process_extensions e self dir document_type ((ext, _) # items) (st, w) =
     (case glob e dir ext of
        Inl x \<Rightarrow> (Some x, st, w)
      | Inr files \<Rightarrow>
          (case process_files e self document_type files
                  (st\<lparr>total := total st + length files\<rparr>, w) of
             (Some x, st', w') \<Rightarrow> (Some x, st', w')
           | (None, st', w') \<Rightarrow> process_extensions e self dir document_type items (st', w')))"

text \<open>The body of the \<open>try\<close> of \<open>process_directory\<close>, with the statistics it has reached.\<close>

definition process_directory_try ::
  "env \<Rightarrow> processor \<Rightarrow> string \<Rightarrow> string option \<Rightarrow> world \<Rightarrow> exn option \<times> stats \<times> world" where
  "process_directory_try e self directory_path document_type w =
     (let st = \<lparr>total = 0, successful = 0, failed = 0\<rparr> in
      if \<not> fs_exists e directory_path \<or> \<not> fs_is_dir e directory_path
      then (Some (NotADirectoryError (''Directory not found: '' @ directory_path)), st, w)
      else process_extensions e self directory_path document_type SUPPORTED_EXTENSIONS (st, w))"

text \<open>
  \<open>process_directory\<close>: the handler of \<open>except Exception\<close> prints the error, and the
  statistics are returned; an exception of that \<open>print\<close> is raised out of
  \<open>process_directory\<close>.
\<close>

definition process_directory ::
  "env \<Rightarrow> processor \<Rightarrow> string \<Rightarrow> string option \<Rightarrow> world \<Rightarrow> (exn + stats) \<times> world" where
  "process_directory e self directory_path document_type w =
     (case process_directory_try e self directory_path document_type w of
        (None, st, w') \<Rightarrow> (Inr st, w')
      | (Some x, st, w') \<Rightarrow>
          (case console e (''Error processing directory '' @ directory_path @ '': ''
                  @ str_exn x) of
             None \<Rightarrow> (Inr st, w')
           | Some y \<Rightarrow> (Inl y, w')))"

section \<open>Notions used to state the properties\<close>

text \<open>
  The linear order of the stages, read off \<open>current_step\<close>: 0 while the retriever has not
  returned (the key is absent or names the retriever), then 1 to 4 for \<open>researcher\<close>,
  \<open>writer\<close>, \<open>critic\<close> and \<open>END\<close>.
\<close>

definition stage_rank :: "string option \<Rightarrow> nat" where
  "stage_rank step =
     (if step = Some ''researcher'' then 1
      else if step = Some ''writer'' then 2
      else if step = Some ''critic'' then 3
      else if step = Some END then 4
      else 0)"

text \<open>What a run shows of each node it entered: its name, whether it returned, and
  \<open>current_step\<close> as the node left it.\<close>

definition progress :: "step \<Rightarrow> string \<times> bool \<times> string option" where
  "progress st = (fst st, fst (snd st) = None, st_current_step (snd (snd st)))"

text \<open>Of the entries a walk yields, those a directory scan takes up: for each supported
  extension in turn, the entries whose name ends with it.\<close>

definition supported_files :: "string list \<Rightarrow> string list" where
  "supported_files entries =
     concat (map (\<lambda>ext. filter (\<lambda>p. suffix ext (path_name p)) entries)
       (keys SUPPORTED_EXTENSIONS))"

text \<open>
  What the graph hands to an agent after the retriever has returned: the messages, an
  \<open>agent_outputs\<close> entry, and no \<open>query\<close>.
\<close>

definition ready :: "agent_state \<Rightarrow> bool" where
  "ready s \<longleftrightarrow> st_messages s \<noteq> [] \<and> st_query s = None \<and> st_agent_outputs s \<noteq> None"

section \<open>Stub collaborators for the concrete runs\<close>

definition empty_index :: "string \<Rightarrow> nat \<Rightarrow> exn + document list" where
  "empty_index query k = Inr []"

text \<open>An index that answers every query from one ranking, most relevant first.\<close>

definition ranked_index :: "document list \<Rightarrow> string \<Rightarrow> nat \<Rightarrow> exn + document list" where
  "ranked_index ranked query k = Inr (take k ranked)"

definition paris :: document where
  "paris = \<lparr>page_content = ''Paris is the capital of France.'', metadata = []\<rparr>"


definition fixed_llm :: "string \<Rightarrow> exn + string" where
  "fixed_llm prompt = Inr ''ok''"

text \<open>A model that refuses the draft prompt for \<open>Q\<close> when it carries no analysis.\<close>

definition analysis_checking_llm :: "string \<Rightarrow> exn + string" where
  "analysis_checking_llm prompt =
     (if prompt = draft_prompt ''Q'' [] [] then Inl (ExternalError ''no analysis given'')
      else Inr ''ok'')"



text \<open>
  A file system with the directory \<open>docs\<close>, holding two readable files, one the loader
  cannot read and one of another type, and the directory \<open>hidden\<close>, holding one file, named
  \<open>.txt\<close>; a splitter that makes one chunk of each document; a store that accepts every
  batch; a console that writes everything.
\<close>

definition demo_env :: env where
  "demo_env =
     \<lparr>fs_exists = (\<lambda>p. p \<in> set [''docs'', ''docs/a.txt'', ''docs/bad.txt'', ''docs/c.md'',
                                   ''docs/skip.docx'', ''hidden'', ''hidden/.txt'']),
      fs_is_dir = (\<lambda>p. p \<in> set [''docs'', ''hidden'']),
      fs_entries = (\<lambda>dir ext.
         if dir = ''docs''
         then Inr [''docs/a.txt'', ''docs/bad.txt'', ''docs/c.md'', ''docs/skip.docx'']
         else if dir = ''hidden'' then Inr [''hidden/.txt'']
         else Inl (ExternalError ''no such directory'')),
      loader_load = (\<lambda>l p.
         if p = ''docs/bad.txt'' then Inl (ExternalError ''cannot decode'')
         else Inr [\<lparr>page_content = ''text of '' @ p, metadata = []\<rparr>]),
      split_documents = (\<lambda>ts docs. Inr docs),
      add_documents = (\<lambda>held batch. None),
      now_isoformat = (\<lambda>n. ''2024-01-01T00:00:00''),
      console = (\<lambda>text. None)\<rparr>"

text \<open>
  Two paths with a name that is not UTF-8: the byte \<open>E9\<close> stands where Python, which
  decodes file names with \<open>surrogateescape\<close>, has the lone surrogate \<open>U+DCE9\<close>.
\<close>

definition latin1_file :: string where
  "latin1_file = ''inbox/caf'' @ [CHR 0xE9] @ ''.txt''"

definition latin1_dir :: string where
  "latin1_dir = ''caf'' @ [CHR 0xE9]"

text \<open>
  The same collaborators over a directory \<open>inbox\<close> with two text files, the first of them
  \<open>latin1_file\<close>, every file readable, and a strict console: \<open>print\<close> raises
  \<open>UnicodeEncodeError\<close> on a text that holds that byte.
\<close>

definition strict_env :: env where
  "strict_env =
     demo_env\<lparr>
       fs_exists := (\<lambda>p. p \<in> set [''inbox'', latin1_file, ''inbox/b.txt'']),
       fs_is_dir := (\<lambda>p. p = ''inbox''),
       fs_entries := (\<lambda>dir ext.
          if dir = ''inbox'' then Inr [latin1_file, ''inbox/b.txt'']
          else Inl (ExternalError ''no such directory'')),
       loader_load := (\<lambda>l p. Inr [\<lparr>page_content = ''text of '' @ p, metadata = []\<rparr>]),
       console := (\<lambda>text.
          if CHR 0xE9 \<in> set text
          then Some (ExternalError ''UnicodeEncodeError: surrogates not allowed'')
          else None)\<rparr>"

definition empty_world :: world where
  "empty_world = \<lparr>store = [], clock_reads = 0\<rparr>"

section \<open>Running the chain\<close>

lemma workflow_parts:
  "nodes (workflow vs llm) =
     [(''retriever'', retriever_agent vs), (''researcher'', researcher_agent llm),
      (''writer'', writer_agent llm), (''critic'', critic_agent llm)]"
  "edges (workflow vs llm) =
     [(''retriever'', ''researcher''), (''researcher'', ''writer''), (''writer'', ''critic'')]"
  "entry_point (workflow vs llm) = Some ''retriever''"
  by (simp_all add: workflow_def set_entry_point_def add_edge_def add_node_def StateGraph_def)

text \<open>One unfolding of the runner per node of the workflow; the critic has no outgoing edge.\<close>

lemma run_critic:
  "run_from (workflow vs llm) ''critic'' s log =
     Some (log @ [(''critic'', fst (critic_agent llm s), snd (critic_agent llm s))])"
  by (subst run_from.simps) (simp add: workflow_parts split: prod.splits option.splits)

lemma run_writer:
  "run_from (workflow vs llm) ''writer'' s log =
     (case writer_agent llm s of
        (Some e, s') \<Rightarrow> Some (log @ [(''writer'', Some e, s')])
      | (None, s') \<Rightarrow>
          run_from (workflow vs llm) ''critic'' (declared s') (log @ [(''writer'', None, s')]))"
  by (subst run_from.simps) (simp add: workflow_parts split: prod.splits option.splits)

lemma run_researcher:
  "run_from (workflow vs llm) ''researcher'' s log =
     (case researcher_agent llm s of
        (Some e, s') \<Rightarrow> Some (log @ [(''researcher'', Some e, s')])
      | (None, s') \<Rightarrow>
          run_from (workflow vs llm) ''writer'' (declared s') (log @ [(''researcher'', None, s')]))"
  by (subst run_from.simps) (simp add: workflow_parts split: prod.splits option.splits)

lemma run_retriever:
  "run_from (workflow vs llm) ''retriever'' s log =
     (case retriever_agent vs s of
        (Some e, s') \<Rightarrow> Some (log @ [(''retriever'', Some e, s')])
      | (None, s') \<Rightarrow>
          run_from (workflow vs llm) ''researcher'' (declared s')
            (log @ [(''retriever'', None, s')]))"
  by (subst run_from.simps) (simp add: workflow_parts split: prod.splits option.splits)

lemma invoke_chain:
  "invoke (chain vs llm) s = run_from (workflow vs llm) ''retriever'' (declared s) []"
  by (simp add: invoke_def chain_def workflow_parts)

lemmas run_simps = invoke_chain run_retriever run_researcher run_writer run_critic

text \<open>
  What each agent does with a dictionary the graph hands it after the retriever has
  returned: the query is read from the last message and stored again, and a call of the
  model that raises leaves every other key as it was.
\<close>

lemma get_query_ready:
  "ready s \<Longrightarrow>
     get_query s = Inr (last (st_messages s), s\<lparr>st_query := Some (last (st_messages s))\<rparr>)"
  by (cases "st_messages s") (auto simp: ready_def get_query_def)

lemma retriever_eq:
  "retriever_agent vs s =
     (if st_messages s = [] then (Some (IndexError ''list index out of range''), s)
      else case vs (last (st_messages s)) 3 of
             Inl e \<Rightarrow> (Some e, s)
           | Inr docs \<Rightarrow>
               (None, s\<lparr>st_current_step := Some ''researcher'',
                        st_context := Some (join ''\<newline>\<newline>'' (map page_content docs)),
                        st_query := Some (last (st_messages s)),
                        st_agent_outputs := Some (dict_set ''retriever''
                           (retriever_fragment (length docs)
                              (join ''\<newline>\<newline>'' (map page_content docs)))
                           (agent_outputs_of s))\<rparr>))"
  by (cases "st_messages s")
     (simp_all add: retriever_agent_def agent_outputs_of_def Let_def split: sum.splits)

lemma researcher_eq:
  "ready s \<Longrightarrow> researcher_agent llm s =
     (case llm (analysis_prompt (last (st_messages s)) (get_str (st_context s))) of
        Inl e \<Rightarrow> (Some e, s\<lparr>st_query := Some (last (st_messages s))\<rparr>)
      | Inr analysis \<Rightarrow>
          (None, s\<lparr>st_query := Some (last (st_messages s)),
                   st_current_step := Some ''writer'', st_analysis := Some analysis,
                   st_agent_outputs := Some (dict_set ''research''
                      (research_fragment analysis (last (st_messages s))) (agent_outputs_of s))\<rparr>))"
  by (auto simp: researcher_agent_def get_query_ready agent_outputs_of_def ready_def Let_def
        split: sum.splits option.splits)

lemma writer_eq:
  "ready s \<Longrightarrow> writer_agent llm s =
     (case llm (draft_prompt (last (st_messages s)) (get_str (st_context s))
                  (get_str (st_analysis s))) of
        Inl e \<Rightarrow> (Some e, s\<lparr>st_query := Some (last (st_messages s))\<rparr>)
      | Inr draft \<Rightarrow>
          (None, s\<lparr>st_query := Some (last (st_messages s)),
                   st_current_step := Some ''critic'', st_draft := Some draft,
                   st_agent_outputs := Some (dict_set ''writer'' (writer_fragment draft)
                      (agent_outputs_of s))\<rparr>))"
  by (auto simp: writer_agent_def get_query_ready agent_outputs_of_def ready_def Let_def
        split: sum.splits option.splits)

lemma critic_eq:
  "ready s \<Longrightarrow> critic_agent llm s =
     (case llm (feedback_prompt (last (st_messages s)) (get_str (st_context s))
                  (get_str (st_analysis s)) (get_str (st_draft s))) of
        Inl e \<Rightarrow> (Some e, s\<lparr>st_query := Some (last (st_messages s))\<rparr>)
      | Inr feedback \<Rightarrow>
          (case llm (final_prompt (last (st_messages s)) (get_str (st_draft s)) feedback) of
             Inl e \<Rightarrow> (Some e, s\<lparr>st_query := Some (last (st_messages s))\<rparr>)
           | Inr final \<Rightarrow>
              (None, s\<lparr>st_query := Some (last (st_messages s)),
                       st_current_step := Some END, st_feedback := Some feedback,
                       st_final_response := Some final,
                       st_agent_outputs := Some (dict_set ''response'' (response_fragment final)
                          (dict_set ''critic'' (critic_fragment feedback) (agent_outputs_of s)))\<rparr>)))"
  by (auto simp: critic_agent_def get_query_ready agent_outputs_of_def ready_def Let_def
        split: sum.splits option.splits)

lemmas agent_simps = retriever_eq researcher_eq writer_eq critic_eq

lemma agent_outputs_of_simps [simp]:
  "agent_outputs_of (s\<lparr>st_agent_outputs := Some d\<rparr>) = d"
  "agent_outputs_of (s\<lparr>st_current_step := a\<rparr>) = agent_outputs_of s"
  "agent_outputs_of (s\<lparr>st_context := a\<rparr>) = agent_outputs_of s"
  "agent_outputs_of (s\<lparr>st_query := a\<rparr>) = agent_outputs_of s"
  "agent_outputs_of (s\<lparr>st_analysis := a\<rparr>) = agent_outputs_of s"
  "agent_outputs_of (s\<lparr>st_draft := a\<rparr>) = agent_outputs_of s"
  "agent_outputs_of (s\<lparr>st_feedback := a\<rparr>) = agent_outputs_of s"
  "agent_outputs_of (s\<lparr>st_final_response := a\<rparr>) = agent_outputs_of s"
  "agent_outputs_of (declared s) = agent_outputs_of s"
  by (simp_all add: agent_outputs_of_def declared_def)

text \<open>What the graph keeps, field by field.\<close>

lemma declared_simps [simp]:
  "st_messages (declared s) = st_messages s"
  "st_current_step (declared s) = st_current_step s"
  "st_context (declared s) = st_context s"
  "st_research_summary (declared s) = st_research_summary s"
  "st_final_answer (declared s) = st_final_answer s"
  "st_agent_outputs (declared s) = st_agent_outputs s"
  "st_query (declared s) = None" "st_analysis (declared s) = None"
  "st_draft (declared s) = None" "st_feedback (declared s) = None"
  "st_final_response (declared s) = None"
  by (simp_all add: declared_def)

text \<open>The two dictionaries the repository starts a run from.\<close>

lemma input_facts:
  assumes "input = api_input q \<or> input = main_input q"
  shows "st_messages input = [q]" "agent_outputs_of input = []"
    "stage_rank (st_current_step input) = 0"
  using assms
  by (auto simp: api_input_def main_input_def agent_outputs_of_def stage_rank_def END_def)

lemma rank_facts:
  "stage_rank (Some ''researcher'') = 1" "stage_rank (Some ''writer'') = 2"
  "stage_rank (Some ''critic'') = 3" "stage_rank (Some END) = 4"
  by (simp_all add: stage_rank_def END_def)

lemma api_is_input: "api_input q = api_input q \<or> api_input q = main_input q"
  by simp




text \<open>A run in which every call succeeds.\<close>

lemma fixed_run:
  "\<exists>log result. invoke (chain (ranked_index [paris]) fixed_llm) (api_input ''Q'') = Some log \<and>
     outcome (api_input ''Q'') log = Inr result"
  by (simp add: run_simps agent_simps ready_def ranked_index_def fixed_llm_def outcome_def
      input_facts[OF api_is_input])

lemma fixed_run_log:
  "\<exists>s1 s2 s3 s4. invoke (chain (ranked_index [paris]) fixed_llm) (api_input ''Q'') =
     Some [(''retriever'', None, s1), (''researcher'', None, s2), (''writer'', None, s3),
           (''critic'', None, s4)] \<and>
     map st_current_step [s1, s2, s3, s4] =
       [Some ''researcher'', Some ''writer'', Some ''critic'', Some END]"
  by (simp add: run_simps agent_simps ready_def ranked_index_def fixed_llm_def
      input_facts[OF api_is_input])

section \<open>The claims about the query pipeline\<close>

text \<open>
  C1.  For every query, a run of the chain that returns has filled \<open>agent_outputs\<close> with
  exactly the keys retriever, research, writer, critic, response, in this order of
  insertion: the retriever, the researcher and the writer have each appended one entry
  and the critic two, in the order in which the nodes ran.  The run starts from the
  dictionary of the query endpoint or from the one of the test in main.py.
\<close>

theorem stage_outputs_order:
  assumes "input = api_input q \<or> input = main_input q"
      and "invoke (chain vs llm) input = Some log"
      and "outcome input log = Inr result"
  shows "map (\<lambda>st. (fst st, keys (agent_outputs_of (snd (snd st))))) log =
           [(''retriever'', [''retriever'']),
            (''researcher'', [''retriever'', ''research'']),
            (''writer'', [''retriever'', ''research'', ''writer'']),
            (''critic'', [''retriever'', ''research'', ''writer'', ''critic'', ''response''])]
         \<and> keys (agent_outputs_of result) =
             [''retriever'', ''research'', ''writer'', ''critic'', ''response'']"
  using assms(2,3)
  by (auto simp: run_simps agent_simps ready_def input_facts[OF assms(1)] outcome_def keys_def
        split: sum.splits)

theorem stage_outputs_order_witness:
  "\<exists>log result. invoke (chain (ranked_index [paris]) fixed_llm) (api_input ''Q'') = Some log \<and>
     outcome (api_input ''Q'') log = Inr result \<and>
     keys (agent_outputs_of result) =
       [''retriever'', ''research'', ''writer'', ''critic'', ''response'']"
proof -
  obtain log result
    where run: "invoke (chain (ranked_index [paris]) fixed_llm) (api_input ''Q'') = Some log"
      and res: "outcome (api_input ''Q'') log = Inr result"
    using fixed_run by blast
  have "api_input ''Q'' = api_input ''Q'' \<or> api_input ''Q'' = main_input ''Q''" by simp
  from stage_outputs_order [OF this run res] run res show ?thesis by blast
qed







text \<open>
  C8.  In every run, from the dictionary of the endpoint or of the test in main.py, the
  nodes are entered in the order retriever, researcher, writer, critic and none after the
  critic; a node that returns leaves \<open>current_step\<close> at the name of the next node (\<open>END\<close>
  after the critic), a node that raises ends the run and leaves \<open>current_step\<close> as it
  found it.  So the rank of \<open>current_step\<close> never decreases, and nothing runs after \<open>END\<close>.
\<close>

theorem stage_progress:
  assumes "input = api_input q \<or> input = main_input q"
  shows "\<exists>log. invoke (chain vs llm) input = Some log \<and>
     map progress log \<in>
       {[(''retriever'', False, st_current_step input)],
        [(''retriever'', True, Some ''researcher''), (''researcher'', False, Some ''researcher'')],
        [(''retriever'', True, Some ''researcher''), (''researcher'', True, Some ''writer''),
         (''writer'', False, Some ''writer'')],
        [(''retriever'', True, Some ''researcher''), (''researcher'', True, Some ''writer''),
         (''writer'', True, Some ''critic''), (''critic'', False, Some ''critic'')],
        [(''retriever'', True, Some ''researcher''), (''researcher'', True, Some ''writer''),
         (''writer'', True, Some ''critic''), (''critic'', True, Some END)]} \<and>
     sorted (map stage_rank (st_current_step input # map (\<lambda>st. st_current_step (snd (snd st))) log))"
  by (simp add: run_simps agent_simps ready_def progress_def input_facts[OF assms] rank_facts
        split: sum.split)

theorem stage_progress_witness:
  "\<exists>log. invoke (chain (ranked_index [paris]) fixed_llm) (api_input ''Q'') = Some log \<and>
     map progress log =
        [(''retriever'', True, Some ''researcher''), (''researcher'', True, Some ''writer''),
         (''writer'', True, Some ''critic''), (''critic'', True, Some END)] \<and>
     sorted (map stage_rank (st_current_step (api_input ''Q'') # map (\<lambda>st. st_current_step (snd (snd st))) log))"
proof -
  obtain s1 s2 s3 s4 where run: "invoke (chain (ranked_index [paris]) fixed_llm) (api_input ''Q'') =
     Some [(''retriever'', None, s1), (''researcher'', None, s2), (''writer'', None, s3),
           (''critic'', None, s4)]"
    and steps: "map st_current_step [s1, s2, s3, s4] =
       [Some ''researcher'', Some ''writer'', Some ''critic'', Some END]"
    using fixed_run_log by (elim exE conjE) (rule that, assumption+)
  let ?log = "[(''retriever'', None, s1), (''researcher'', None, s2), (''writer'', None, s3),
           (''critic'', None, s4)]"
  from stage_progress [OF api_is_input, of "ranked_index [paris]" fixed_llm "''Q''"]
  obtain log where l: "invoke (chain (ranked_index [paris]) fixed_llm) (api_input ''Q'') = Some log"
    and s: "sorted (map stage_rank (st_current_step (api_input ''Q'') #
        map (\<lambda>st. st_current_step (snd (snd st))) log))"
    by (elim exE conjE) (rule that, assumption+)
  from l run have eq: "log = ?log" by simp
  show ?thesis
  proof (intro exI conjI)
    show "invoke (chain (ranked_index [paris]) fixed_llm) (api_input ''Q'') = Some ?log"
      by (rule run)
    show "map progress ?log =
        [(''retriever'', True, Some ''researcher''), (''researcher'', True, Some ''writer''),
         (''writer'', True, Some ''critic''), (''critic'', True, Some END)]"
      using steps by (simp add: progress_def)
    show "sorted (map stage_rank (st_current_step (api_input ''Q'') #
        map (\<lambda>st. st_current_step (snd (snd st))) ?log))"
      using s by (simp add: eq)
  qed
qed

text \<open>
  C9.  A key that \<open>AgentState\<close> does not declare does not outlive the node that wrote it.
  In a run in which every call succeeds, \<open>analysis\<close> is set in the dictionary the
  researcher returns and in none after it, \<open>draft\<close> in the one the writer returns and in
  none after it, \<open>query\<close> is written again by each of the four agents, and the dictionary
  the run returns holds none of the three.  So the prompt of the writer carries no
  analysis: with a model that refuses exactly that prompt, the run raises in the writer.
\<close>

theorem fields_not_carried:
  "map_option (map (st_analysis \<circ> snd \<circ> snd))
       (invoke (chain (ranked_index [paris]) fixed_llm) (api_input ''Q'')) =
     Some [None, Some ''ok'', None, None] \<and>
   map_option (map (st_draft \<circ> snd \<circ> snd))
       (invoke (chain (ranked_index [paris]) fixed_llm) (api_input ''Q'')) =
     Some [None, None, Some ''ok'', None] \<and>
   map_option (map (st_query \<circ> snd \<circ> snd))
       (invoke (chain (ranked_index [paris]) fixed_llm) (api_input ''Q'')) =
     Some [Some ''Q'', Some ''Q'', Some ''Q'', Some ''Q''] \<and>
   map_option (map_sum str_exn st_query) (execute (ranked_index [paris]) fixed_llm ''Q'') =
     Some (Inr None) \<and>
   map_option (map_sum str_exn st_analysis) (execute (ranked_index [paris]) fixed_llm ''Q'') =
     Some (Inr None) \<and>
   map_option (map_sum str_exn st_draft) (execute (ranked_index [paris]) fixed_llm ''Q'') =
     Some (Inr None) \<and>
   map_option (map (\<lambda>st. (fst st, fst (snd st))))
       (invoke (chain empty_index analysis_checking_llm) (api_input ''Q'')) =
     Some [(''retriever'', None), (''researcher'', None),
           (''writer'', Some (ExternalError ''no analysis given''))] \<and>
   execute empty_index analysis_checking_llm ''Q'' =
     Some (Inl (ExternalError ''no analysis given''))"
  by (simp add: execute_def run_simps agent_simps ready_def outcome_def
      empty_index_def ranked_index_def fixed_llm_def analysis_checking_llm_def
      input_facts[OF api_is_input] get_str_def analysis_prompt_def draft_prompt_def)

section \<open>Ingesting files\<close>

text \<open>A call of \<open>process_document\<close> that returns \<open>True\<close>, step by step.\<close>

lemma process_document_True:
  assumes "process_document e self p t w = (Inr True, w')"
  shows "process_document_try e self p t w = (Inr True, w')"
proof -
  obtain r w1 where tr: "process_document_try e self p t w = (r, w1)"
    by (cases "process_document_try e self p t w")
  show ?thesis
  proof (cases r)
    case (Inl x)
    with tr assms show ?thesis
      by (cases "console e (''Error processing document '' @ p @ '': '' @ str_exn x)")
        (simp_all add: process_document_def)
  next
    case (Inr b)
    with tr assms show ?thesis by (simp add: process_document_def)
  qed
qed

lemma process_document_try_True:
  assumes t: "process_document_try e self p t w = (Inr True, w')"
  shows "\<exists>loader_class documents splits.
           map_of SUPPORTED_EXTENSIONS (lower (path_suffix p)) = Some loader_class \<and>
           loader_load e loader_class p = Inr documents \<and>
           split_documents e (splitter self)
             (fst (add_metadata e p t documents (clock_reads w))) = Inr splits \<and>
           w' = w\<lparr>clock_reads := snd (add_metadata e p t documents (clock_reads w)),
                  store := store w @ [splits]\<rparr>"
proof -
  have ex: "fs_exists e p"
    using t by (cases "fs_exists e p") (simp_all add: process_document_try_def)
  obtain lc where lc: "map_of SUPPORTED_EXTENSIONS (lower (path_suffix p)) = Some lc"
    using t ex by (cases "map_of SUPPORTED_EXTENSIONS (lower (path_suffix p))")
      (simp_all add: process_document_try_def)
  have c1: "console e (''Processing '' @ path_name p @ ''...'') = None"
    using t ex lc by (cases "console e (''Processing '' @ path_name p @ ''...'')")
      (simp_all add: process_document_try_def)
  obtain docs where ld: "loader_load e lc p = Inr docs"
    using t ex lc c1 by (cases "loader_load e lc p") (simp_all add: process_document_try_def)
  obtain docs' n where am: "add_metadata e p t docs (clock_reads w) = (docs', n)"
    by (cases "add_metadata e p t docs (clock_reads w)")
  obtain splits where sp: "split_documents e (splitter self) docs' = Inr splits"
    using t ex lc c1 ld am by (cases "split_documents e (splitter self) docs'")
      (simp_all add: process_document_try_def)
  have ad: "add_documents e (store w) splits = None"
    using t ex lc c1 ld am sp by (cases "add_documents e (store w) splits")
      (simp_all add: process_document_try_def)
  have "w' = w\<lparr>clock_reads := n, store := store w @ [splits]\<rparr>"
    using t ex lc c1 ld am sp ad
    by (cases "console e (''Successfully processed '' @ path_name p @ '' (''
            @ str_nat (length splits) @ '' chunks created)'')")
      (simp_all add: process_document_try_def)
  with lc ld am sp show ?thesis by simp
qed

text \<open>
  The loop over files: lists compose up to the first exception, and \<open>total\<close> is not
  touched.
\<close>

lemma process_files_append:
  "process_files e self t (xs @ ys) sw =
     (case process_files e self t xs sw of
        (Some x, st, w) \<Rightarrow> (Some x, st, w)
      | (None, st, w) \<Rightarrow> process_files e self t ys (st, w))"
proof (induction xs arbitrary: sw)
  case Nil
  then show ?case by (cases sw) simp
next
  case (Cons x xs)
  obtain st w where sw: "sw = (st, w)" by (cases sw)
  obtain r w' where d: "process_document e self x t w = (r, w')"
    by (cases "process_document e self x t w")
  show ?case
  proof (cases r)
    case (Inl y)
    with sw d show ?thesis by simp
  next
    case (Inr b)
    with sw d Cons.IH show ?thesis by (cases b) simp_all
  qed
qed

lemma stats_update_commute:
  "st\<lparr>total := n, successful := a\<rparr> = st\<lparr>successful := a, total := n\<rparr>"
  "st\<lparr>total := n, failed := b\<rparr> = st\<lparr>failed := b, total := n\<rparr>"
  by (cases st, simp)+

lemma process_files_total:
  "process_files e self t files (st\<lparr>total := n\<rparr>, w) =
     (case process_files e self t files (st, w) of (x, st', w') \<Rightarrow> (x, st'\<lparr>total := n\<rparr>, w'))"
proof (induction files arbitrary: st w)
  case Nil
  then show ?case by simp
next
  case (Cons f fs)
  obtain r w1 where d: "process_document e self f t w = (r, w1)"
    by (cases "process_document e self f t w")
  show ?case
  proof (cases r)
    case (Inl y)
    with d show ?thesis by simp
  next
    case (Inr b)
    show ?thesis
    proof (cases b)
      case True
      with Inr d Cons.IH [of "st\<lparr>successful := successful st + 1\<rparr>" w1] show ?thesis
        by (simp add: stats_update_commute)
    next
      case False
      with Inr d Cons.IH [of "st\<lparr>failed := failed st + 1\<rparr>" w1] show ?thesis
        by (simp add: stats_update_commute)
    qed
  qed
qed

lemma process_files_keeps_total:
  "process_files e self t files (st, w) = (x, st', w') \<Longrightarrow> total st' = total st"
proof (induction files arbitrary: st w)
  case Nil
  then show ?case by simp
next
  case (Cons f fs)
  obtain r w1 where d: "process_document e self f t w = (r, w1)"
    by (cases "process_document e self f t w")
  show ?case
  proof (cases r)
    case (Inl y)
    with d Cons.prems show ?thesis by simp
  next
    case (Inr b)
    show ?thesis
    proof (cases b)
      case True
      with Inr d Cons.prems
      have "process_files e self t fs (st\<lparr>successful := successful st + 1\<rparr>, w1) =
          (x, st', w')" by simp
      from Cons.IH [OF this] show ?thesis by simp
    next
      case False
      with Inr d Cons.prems
      have "process_files e self t fs (st\<lparr>failed := failed st + 1\<rparr>, w1) = (x, st', w')"
        by simp
      from Cons.IH [OF this] show ?thesis by simp
    qed
  qed
qed

text \<open>A scan whose three walks yield the same entries processes the supported files, in
  the order of the extensions, as far as no exception comes out of \<open>process_document\<close>.\<close>

lemma scan_supported:
  assumes "fs_exists e dir" and "fs_is_dir e dir"
      and "\<forall>ext \<in> set (keys SUPPORTED_EXTENSIONS). fs_entries e dir ext = Inr entries"
      and "process_files e self t (supported_files entries)
             (\<lparr>total = length (supported_files entries), successful = 0, failed = 0\<rparr>, w) =
           (x, st, w')"
  shows "\<exists>n \<le> length (supported_files entries).
           process_directory_try e self dir t w = (x, st\<lparr>total := n\<rparr>, w') \<and>
           (x = None \<longrightarrow> n = length (supported_files entries))"
proof -
  let ?z = "\<lparr>total = 0, successful = 0, failed = 0\<rparr>"
  let ?pdfs = "filter (\<lambda>p. suffix ''.pdf'' (path_name p)) entries"
  let ?txts = "filter (\<lambda>p. suffix ''.txt'' (path_name p)) entries"
  let ?mds = "filter (\<lambda>p. suffix ''.md'' (path_name p)) entries"
  let ?N = "length ?pdfs + (length ?txts + length ?mds)"
  have g: "glob e dir ''.pdf'' = Inr ?pdfs" "glob e dir ''.txt'' = Inr ?txts"
      "glob e dir ''.md'' = Inr ?mds"
    using assms(3) by (simp_all add: glob_def SUPPORTED_EXTENSIONS_def keys_def)
  have sf: "supported_files entries = ?pdfs @ ?txts @ ?mds"
    by (simp add: supported_files_def SUPPORTED_EXTENSIONS_def keys_def)
  have zn: "\<lparr>total = ?N, successful = 0, failed = 0\<rparr> = ?z\<lparr>total := ?N\<rparr>" by simp
  obtain x0 a w0 where all: "process_files e self t (?pdfs @ ?txts @ ?mds) (?z, w) = (x0, a, w0)"
    by (cases "process_files e self t (?pdfs @ ?txts @ ?mds) (?z, w)")
  from assms(4) all have res: "x = x0" "st = a\<lparr>total := ?N\<rparr>" "w' = w0"
    unfolding sf length_append zn process_files_total by simp_all
  have try_eq: "process_directory_try e self dir t w =
      process_extensions e self dir t SUPPORTED_EXTENSIONS (?z, w)"
    using assms(1,2) by (simp add: process_directory_try_def)
  obtain x1 a1 w1 where p1: "process_files e self t ?pdfs (?z, w) = (x1, a1, w1)"
    by (cases "process_files e self t ?pdfs (?z, w)")
  from p1 have q1: "process_files e self t ?pdfs
      (\<lparr>total = length ?pdfs, successful = 0, failed = 0\<rparr>, w) =
      (x1, a1\<lparr>total := length ?pdfs\<rparr>, w1)"
    using process_files_total [where e = e and self = self and t = t and files = ?pdfs
        and st = ?z and n = "length ?pdfs" and w = w]
    by simp
  show ?thesis
  proof (cases x1)
    case (Some y)
    with all p1 have "x0 = Some y" "a = a1" "w0 = w1" by (simp_all add: process_files_append)
    moreover from Some q1 have "process_directory_try e self dir t w =
        (Some y, a1\<lparr>total := length ?pdfs\<rparr>, w1)"
      by (simp add: try_eq SUPPORTED_EXTENSIONS_def g process_files_total)
    ultimately show ?thesis by (intro exI [of _ "length ?pdfs"]) (simp add: res sf)
  next
    case None
    note n1 = None
    obtain x2 a2 w2 where p2: "process_files e self t ?txts (a1, w1) = (x2, a2, w2)"
      by (cases "process_files e self t ?txts (a1, w1)")
    show ?thesis
    proof (cases x2)
      case (Some y)
      with all p1 p2 n1 have "x0 = Some y" "a = a2" "w0 = w2"
        by (simp_all add: process_files_append)
      moreover from Some n1 q1 p2 have "process_directory_try e self dir t w =
          (Some y, a2\<lparr>total := length ?pdfs + length ?txts\<rparr>, w2)"
        by (simp add: try_eq SUPPORTED_EXTENSIONS_def g process_files_total)
      ultimately show ?thesis
        by (intro exI [of _ "length ?pdfs + length ?txts"]) (simp add: res sf)
    next
      case None
      note n2 = None
      obtain x3 a3 w3 where p3: "process_files e self t ?mds (a2, w2) = (x3, a3, w3)"
        by (cases "process_files e self t ?mds (a2, w2)")
      from all p1 p2 p3 n1 n2 have "x0 = x3" "a = a3" "w0 = w3"
        by (simp_all add: process_files_append)
      moreover from n1 n2 q1 p2 p3 have "process_directory_try e self dir t w =
          (x3, a3\<lparr>total := ?N\<rparr>, w3)"
        by (cases x3) (simp_all add: try_eq SUPPORTED_EXTENSIONS_def g process_files_total
            add.assoc)
      ultimately show ?thesis
        by (intro exI [of _ ?N]) (simp add: res sf)
    qed
  qed
qed

text \<open>The stub file systems, evaluated.\<close>

lemma demo_suffixes:
  "lower (path_suffix ''docs/a.txt'') = ''.txt''"
  "lower (path_suffix ''docs/bad.txt'') = ''.txt''"
  "lower (path_suffix ''docs/c.md'') = ''.md''"
  "lower (path_suffix ''docs/skip.docx'') = ''.docx''"
  "lower (path_suffix ''missing.txt'') = ''.txt''"
  "lower (path_suffix ''hidden/.txt'') = []"
  "lower (path_suffix ''inbox/b.txt'') = ''.txt''"
  "lower (path_suffix latin1_file) = ''.txt''"
  by (simp_all add: lower_def path_suffix_def path_name_def lower_char_def latin1_file_def)

lemma demo_names:
  "path_name ''docs/a.txt'' = ''a.txt''" "path_name ''docs/bad.txt'' = ''bad.txt''"
  "path_name ''docs/c.md'' = ''c.md''" "path_name ''docs/skip.docx'' = ''skip.docx''"
  "path_name ''hidden/.txt'' = ''.txt''" "path_name ''inbox/b.txt'' = ''b.txt''"
  by (simp_all add: path_name_def)

lemma demo_supported:
  "supported_files [''docs/a.txt'', ''docs/bad.txt'', ''docs/c.md'', ''docs/skip.docx''] =
     [''docs/a.txt'', ''docs/bad.txt'', ''docs/c.md'']"
  "supported_files [''hidden/.txt''] = [''hidden/.txt'']"
  by (simp_all add: supported_files_def SUPPORTED_EXTENSIONS_def keys_def demo_names
      suffix_to_prefix)

lemma demo_ok:
  "process_document demo_env Processor ''docs/a.txt'' None w =
     (Inr True, w\<lparr>clock_reads := Suc (clock_reads w),
             store := store w @ [[\<lparr>page_content = ''text of docs/a.txt'',
                 metadata = [(''source'', ''docs/a.txt''), (''filename'', ''a.txt''),
                             (''type'', ''general''),
                             (''date_processed'', ''2024-01-01T00:00:00'')]\<rparr>]]\<rparr>)"
  "process_document demo_env Processor ''docs/c.md'' None w =
     (Inr True, w\<lparr>clock_reads := Suc (clock_reads w),
             store := store w @ [[\<lparr>page_content = ''text of docs/c.md'',
                 metadata = [(''source'', ''docs/c.md''), (''filename'', ''c.md''),
                             (''type'', ''general''),
                             (''date_processed'', ''2024-01-01T00:00:00'')]\<rparr>]]\<rparr>)"
  by (simp_all add: process_document_def process_document_try_def demo_suffixes demo_env_def
      SUPPORTED_EXTENSIONS_def update_metadata_def demo_names Let_def)

lemma demo_fail:
  "process_document_try demo_env Processor ''docs/bad.txt'' None w =
     (Inl (ExternalError ''cannot decode''), w)"
  "process_document demo_env Processor ''docs/bad.txt'' None w = (Inr False, w)"
  "process_document demo_env Processor ''missing.txt'' None w = (Inr False, w)"
  "process_document demo_env Processor ''docs/skip.docx'' None w = (Inr False, w)"
  "process_document demo_env Processor ''hidden/.txt'' None w = (Inr False, w)"
  by (simp_all add: process_document_def process_document_try_def demo_suffixes demo_env_def
      SUPPORTED_EXTENSIONS_def Let_def)

lemma demo_dirs:
  "fs_exists demo_env ''docs''" "fs_is_dir demo_env ''docs''"
  "fs_exists demo_env ''hidden''" "fs_is_dir demo_env ''hidden''"
  "\<not> fs_exists demo_env ''nowhere''"
  "fs_entries demo_env ''docs'' ext =
     Inr [''docs/a.txt'', ''docs/bad.txt'', ''docs/c.md'', ''docs/skip.docx'']"
  "fs_entries demo_env ''hidden'' ext = Inr [''hidden/.txt'']"
  "console demo_env text = None"
  by (simp_all add: demo_env_def)

lemma str_nat_one: "str_nat (Suc 0) = ''1''"
  by (simp add: digit_def)

lemma latin1_facts:
  "CHR 0xE9 \<in> set latin1_file" "CHR 0xE9 \<in> set (path_name latin1_file)"
  "CHR 0xE9 \<in> set latin1_dir" "latin1_file \<noteq> ''inbox''" "latin1_file \<noteq> ''inbox/b.txt''"
  "latin1_dir \<noteq> ''inbox''" "latin1_dir \<noteq> ''inbox/b.txt''" "latin1_dir \<noteq> latin1_file"
  "suffix ''.txt'' (path_name latin1_file)" "\<not> suffix ''.pdf'' (path_name latin1_file)"
  "\<not> suffix ''.md'' (path_name latin1_file)"
  "suffix ''.txt'' (path_name ''inbox/b.txt'')" "\<not> suffix ''.pdf'' (path_name ''inbox/b.txt'')"
  "\<not> suffix ''.md'' (path_name ''inbox/b.txt'')"
  by (simp_all add: latin1_file_def latin1_dir_def path_name_def suffix_to_prefix)

lemma strict_parts:
  "fs_exists strict_env p \<longleftrightarrow> p \<in> set [''inbox'', latin1_file, ''inbox/b.txt'']"
  "fs_is_dir strict_env p \<longleftrightarrow> p = ''inbox''"
  "fs_entries strict_env ''inbox'' ext = Inr [latin1_file, ''inbox/b.txt'']"
  "loader_load strict_env l p = Inr [\<lparr>page_content = ''text of '' @ p, metadata = []\<rparr>]"
  "split_documents strict_env ts docs = Inr docs"
  "add_documents strict_env held batch = None"
  "now_isoformat strict_env n = ''2024-01-01T00:00:00''"
  "console strict_env text =
     (if CHR 0xE9 \<in> set text
      then Some (ExternalError ''UnicodeEncodeError: surrogates not allowed'') else None)"
  by (simp_all add: strict_env_def demo_env_def)

lemma strict_try:
  "process_document_try strict_env Processor latin1_file None w =
     (Inl (ExternalError ''UnicodeEncodeError: surrogates not allowed''), w)"
  by (simp add: process_document_try_def strict_parts demo_suffixes SUPPORTED_EXTENSIONS_def
      latin1_facts)

lemma strict_files:
  "process_document strict_env Processor latin1_file None w =
     (Inl (ExternalError ''UnicodeEncodeError: surrogates not allowed''), w)"
  "process_document strict_env Processor ''inbox/b.txt'' None w =
     (Inr True, w\<lparr>clock_reads := Suc (clock_reads w),
             store := store w @ [[\<lparr>page_content = ''text of inbox/b.txt'',
                 metadata = [(''source'', ''inbox/b.txt''), (''filename'', ''b.txt''),
                             (''type'', ''general''),
                             (''date_processed'', ''2024-01-01T00:00:00'')]\<rparr>]]\<rparr>)"
  by (simp_all add: process_document_def strict_try process_document_try_def strict_parts
      demo_suffixes demo_names SUPPORTED_EXTENSIONS_def update_metadata_def latin1_facts
      str_nat_one Let_def del: str_nat.simps)

lemma strict_scan:
  "process_directory_try strict_env Processor ''inbox'' None w =
     (Some (ExternalError ''UnicodeEncodeError: surrogates not allowed''),
      \<lparr>total = 2, successful = 0, failed = 0\<rparr>, w)"
  by (simp add: process_directory_try_def strict_parts SUPPORTED_EXTENSIONS_def glob_def
      latin1_facts strict_files)

section \<open>The claims about ingestion\<close>

text \<open>
  C5.  Whenever \<open>process_document\<close> of the \<open>Processor\<close> returns \<open>True\<close>, the documents the
  loader returned, with their metadata, went through the text splitter configured with
  chunk size 1000 and overlap 200, and all the chunks it returned were handed to the
  vector store in one call of \<open>add_documents\<close>: the store holds exactly one batch more.
\<close>

theorem single_batch:
  assumes "process_document e Processor p t w = (Inr True, w')"
  shows "\<exists>loader_class documents splits.
           map_of SUPPORTED_EXTENSIONS (lower (path_suffix p)) = Some loader_class \<and>
           loader_load e loader_class p = Inr documents \<and>
           split_documents e \<lparr>chunk_size = 1000, chunk_overlap = 200\<rparr>
             (fst (add_metadata e p t documents (clock_reads w))) = Inr splits \<and>
           store w' = store w @ [splits]"
proof -
  from process_document_try_True [OF process_document_True [OF assms]]
  obtain loader_class documents splits where
    a: "map_of SUPPORTED_EXTENSIONS (lower (path_suffix p)) = Some loader_class"
    and b: "loader_load e loader_class p = Inr documents"
    and c: "split_documents e (splitter Processor)
             (fst (add_metadata e p t documents (clock_reads w))) = Inr splits"
    and d: "w' = w\<lparr>clock_reads := snd (add_metadata e p t documents (clock_reads w)),
                  store := store w @ [splits]\<rparr>"
    by (elim exE conjE) (rule that, assumption+)
  from c have c': "split_documents e \<lparr>chunk_size = 1000, chunk_overlap = 200\<rparr>
             (fst (add_metadata e p t documents (clock_reads w))) = Inr splits"
    by (simp add: Processor_def)
  from d have d': "store w' = store w @ [splits]" by simp
  show ?thesis
  proof (intro exI conjI)
    show "map_of SUPPORTED_EXTENSIONS (lower (path_suffix p)) = Some loader_class" by (rule a)
    show "loader_load e loader_class p = Inr documents" by (rule b)
    show "split_documents e \<lparr>chunk_size = 1000, chunk_overlap = 200\<rparr>
             (fst (add_metadata e p t documents (clock_reads w))) = Inr splits" by (rule c')
    show "store w' = store w @ [splits]" by (rule d')
  qed
qed

theorem single_batch_witness:
  "fst (process_document demo_env Processor ''docs/a.txt'' None empty_world) = Inr True \<and>
   (\<exists>splits. split_documents demo_env \<lparr>chunk_size = 1000, chunk_overlap = 200\<rparr>
        [\<lparr>page_content = ''text of docs/a.txt'',
          metadata = [(''source'', ''docs/a.txt''), (''filename'', ''a.txt''),
                      (''type'', ''general''), (''date_processed'', ''2024-01-01T00:00:00'')]\<rparr>]
        = Inr splits \<and>
      store (snd (process_document demo_env Processor ''docs/a.txt'' None empty_world)) =
        store empty_world @ [splits])"
proof -
  have pd: "process_document demo_env Processor ''docs/a.txt'' None empty_world =
      (Inr True, snd (process_document demo_env Processor ''docs/a.txt'' None empty_world))"
    by (simp add: demo_ok)
  from single_batch [OF pd]
  obtain loader_class documents splits where
    l: "map_of SUPPORTED_EXTENSIONS (lower (path_suffix ''docs/a.txt'')) = Some loader_class"
    and d: "loader_load demo_env loader_class ''docs/a.txt'' = Inr documents"
    and s: "split_documents demo_env \<lparr>chunk_size = 1000, chunk_overlap = 200\<rparr>
             (fst (add_metadata demo_env ''docs/a.txt'' None documents (clock_reads empty_world)))
             = Inr splits"
    and st: "store (snd (process_document demo_env Processor ''docs/a.txt'' None empty_world)) =
        store empty_world @ [splits]"
    by (elim exE conjE) (rule that, assumption+)
  from d have "documents = [\<lparr>page_content = ''text of docs/a.txt'', metadata = []\<rparr>]"
    by (simp add: demo_env_def)
  then have m: "fst (add_metadata demo_env ''docs/a.txt'' None documents (clock_reads empty_world)) =
        [\<lparr>page_content = ''text of docs/a.txt'',
          metadata = [(''source'', ''docs/a.txt''), (''filename'', ''a.txt''),
                      (''type'', ''general''), (''date_processed'', ''2024-01-01T00:00:00'')]\<rparr>]"
    by (simp add: demo_env_def update_metadata_def path_name_def)
  from s st show ?thesis unfolding m by (simp add: demo_ok)
qed

text \<open>
  C6.  With a console that cannot encode the name of a file, the \<open>print\<close> in the handler
  of \<open>process_document\<close> raises, and \<open>process_document\<close> raises instead of returning
  \<open>False\<close>.  The scan of the directory ends at that file: the file is counted in \<open>total\<close>
  and not in \<open>failed\<close>, and the file after it, which \<open>process_document\<close> ingests when
  called on it, is not processed; the store stays empty.
\<close>

theorem unprintable_name_aborts_scan:
  "process_document strict_env Processor latin1_file None empty_world =
     (Inl (ExternalError ''UnicodeEncodeError: surrogates not allowed''), empty_world) \<and>
   process_files strict_env Processor None [latin1_file, ''inbox/b.txt'']
       (\<lparr>total = 2, successful = 0, failed = 0\<rparr>, empty_world) =
     (Some (ExternalError ''UnicodeEncodeError: surrogates not allowed''),
      \<lparr>total = 2, successful = 0, failed = 0\<rparr>, empty_world) \<and>
   process_directory strict_env Processor ''inbox'' None empty_world =
     (Inr \<lparr>total = 2, successful = 0, failed = 0\<rparr>, empty_world) \<and>
   fst (process_document strict_env Processor ''inbox/b.txt'' None empty_world) = Inr True"
  by (simp add: strict_files strict_scan process_directory_def strict_parts)

text \<open>
  C7, as stated, fails.  Ingesting a missing path or a file of an unsupported type
  directly returns \<open>False\<close> in both cases and raises nothing; and a scan of a directory
  whose only file is named \<open>.txt\<close>, which has no suffix and so no supported type, counts
  that file as a failure.
\<close>

theorem ingest_errors_counterexample:
  "process_document demo_env Processor ''missing.txt'' None empty_world =
     (Inr False, empty_world) \<and>
   process_document demo_env Processor ''docs/skip.docx'' None empty_world =
     (Inr False, empty_world) \<and>
   lower (path_suffix ''hidden/.txt'') = [] \<and>
   fst (process_directory demo_env Processor ''hidden'' None empty_world) =
     Inr \<lparr>total = 1, successful = 0, failed = 1\<rparr>"
proof -
  have h: "\<forall>ext \<in> set (keys SUPPORTED_EXTENSIONS).
      fs_entries demo_env ''hidden'' ext = Inr [''hidden/.txt'']"
    by (simp add: demo_dirs)
  have f: "process_files demo_env Processor None (supported_files [''hidden/.txt''])
      (\<lparr>total = length (supported_files [''hidden/.txt'']), successful = 0, failed = 0\<rparr>,
       empty_world) = (None, \<lparr>total = 1, successful = 0, failed = 1\<rparr>, empty_world)"
    by (simp add: demo_supported demo_fail)
  from scan_supported [OF demo_dirs(3,4) h f]
  have "process_directory_try demo_env Processor ''hidden'' None empty_world =
      (None, \<lparr>total = 1, successful = 0, failed = 1\<rparr>, empty_world)"
    by (auto simp: demo_supported)
  then show ?thesis by (simp add: demo_fail demo_suffixes process_directory_def)
qed

text \<open>
  C7, amended.  Ingested directly, a path that does not exist raises \<open>FileNotFoundError\<close>
  and a file whose lower-cased suffix is not a supported extension raises \<open>ValueError\<close>,
  both inside the \<open>try\<close> of \<open>process_document\<close>, whose handler prints the error and
  returns \<open>False\<close>, the state as it was (what \<open>process_document\<close> raises instead, if that
  \<open>print\<close> raises, is the exception of the \<open>print\<close>).  A scan of a directory processes
  and counts exactly the entries whose name ends with a supported extension, in the order
  of the extensions: its result is the one of the loop over these files, or, when an
  exception comes out of \<open>process_document\<close>, the statistics reached there, with the
  files found so far as \<open>total\<close>.  Every other entry is skipped.
\<close>

theorem ingest_errors:
  "(\<not> fs_exists e p \<longrightarrow>
      process_document_try e self p t w =
        (Inl (FileNotFoundError (''File not found: '' @ p)), w) \<and>
      process_document e self p t w =
        ((case console e (''Error processing document '' @ p @ '': ''
                  @ ''File not found: '' @ p) of
            None \<Rightarrow> Inr False | Some y \<Rightarrow> Inl y), w)) \<and>
   (fs_exists e p \<and> lower (path_suffix p) \<notin> set (keys SUPPORTED_EXTENSIONS) \<longrightarrow>
      process_document_try e self p t w =
        (Inl (ValueError (''Unsupported file type: '' @ lower (path_suffix p)
                @ ''. Supported types: '' @ repr_keys (keys SUPPORTED_EXTENSIONS))), w) \<and>
      process_document e self p t w =
        ((case console e (''Error processing document '' @ p @ '': ''
                  @ ''Unsupported file type: '' @ lower (path_suffix p)
                  @ ''. Supported types: '' @ repr_keys (keys SUPPORTED_EXTENSIONS)) of
            None \<Rightarrow> Inr False | Some y \<Rightarrow> Inl y), w)) \<and>
   (fs_exists e dir \<and> fs_is_dir e dir \<and>
    (\<forall>ext \<in> set (keys SUPPORTED_EXTENSIONS). fs_entries e dir ext = Inr entries) \<longrightarrow>
      (\<forall>st w'. process_files e self t (supported_files entries)
             (\<lparr>total = length (supported_files entries), successful = 0, failed = 0\<rparr>, w) =
             (None, st, w') \<longrightarrow>
          process_directory e self dir t w = (Inr st, w')) \<and>
      (\<forall>x st w'. process_files e self t (supported_files entries)
             (\<lparr>total = length (supported_files entries), successful = 0, failed = 0\<rparr>, w) =
             (Some x, st, w') \<longrightarrow>
          (\<exists>n \<le> length (supported_files entries).
             process_directory_try e self dir t w = (Some x, st\<lparr>total := n\<rparr>, w') \<and>
             process_directory e self dir t w =
               ((case console e (''Error processing directory '' @ dir @ '': '' @ str_exn x) of
                   None \<Rightarrow> Inr (st\<lparr>total := n\<rparr>) | Some y \<Rightarrow> Inl y), w')))) \<and>
   (\<forall>q \<in> set entries.
      (\<forall>ext \<in> set (keys SUPPORTED_EXTENSIONS). \<not> suffix ext (path_name q)) \<longrightarrow>
        q \<notin> set (supported_files entries))"
proof (intro conjI impI allI)
  assume "\<not> fs_exists e p"
  then show "process_document_try e self p t w =
        (Inl (FileNotFoundError (''File not found: '' @ p)), w)"
    by (simp add: process_document_try_def)
  then show "process_document e self p t w =
        ((case console e (''Error processing document '' @ p @ '': ''
                  @ ''File not found: '' @ p) of
            None \<Rightarrow> Inr False | Some y \<Rightarrow> Inl y), w)"
    by (simp add: process_document_def split: option.split)
next
  assume a: "fs_exists e p \<and> lower (path_suffix p) \<notin> set (keys SUPPORTED_EXTENSIONS)"
  then have "map_of SUPPORTED_EXTENSIONS (lower (path_suffix p)) = None"
    by (simp add: keys_def map_of_eq_None_iff)
  with a show t: "process_document_try e self p t w =
        (Inl (ValueError (''Unsupported file type: '' @ lower (path_suffix p)
                @ ''. Supported types: '' @ repr_keys (keys SUPPORTED_EXTENSIONS))), w)"
    by (simp add: process_document_try_def Let_def)
  show "process_document e self p t w =
        ((case console e (''Error processing document '' @ p @ '': ''
                  @ ''Unsupported file type: '' @ lower (path_suffix p)
                  @ ''. Supported types: '' @ repr_keys (keys SUPPORTED_EXTENSIONS)) of
            None \<Rightarrow> Inr False | Some y \<Rightarrow> Inl y), w)"
    by (simp add: process_document_def t split: option.split)
next
  fix st w'
  assume d: "fs_exists e dir \<and> fs_is_dir e dir \<and>
    (\<forall>ext \<in> set (keys SUPPORTED_EXTENSIONS). fs_entries e dir ext = Inr entries)"
    and f: "process_files e self t (supported_files entries)
             (\<lparr>total = length (supported_files entries), successful = 0, failed = 0\<rparr>, w) =
             (None, st, w')"
  from d have d1: "fs_exists e dir" and d2: "fs_is_dir e dir"
    and d3: "\<forall>ext \<in> set (keys SUPPORTED_EXTENSIONS). fs_entries e dir ext = Inr entries"
    by simp_all
  from scan_supported [OF d1 d2 d3 f]
  have r: "process_directory_try e self dir t w =
      (None, st\<lparr>total := length (supported_files entries)\<rparr>, w')" by auto
  from process_files_keeps_total [OF f]
  have "total st = length (supported_files entries)" by simp
  then have "st\<lparr>total := length (supported_files entries)\<rparr> = st" by (cases st) simp
  with r show "process_directory e self dir t w = (Inr st, w')"
    by (simp add: process_directory_def)
next
  fix x st w'
  assume d: "fs_exists e dir \<and> fs_is_dir e dir \<and>
    (\<forall>ext \<in> set (keys SUPPORTED_EXTENSIONS). fs_entries e dir ext = Inr entries)"
    and f: "process_files e self t (supported_files entries)
             (\<lparr>total = length (supported_files entries), successful = 0, failed = 0\<rparr>, w) =
             (Some x, st, w')"
  from d have d1: "fs_exists e dir" and d2: "fs_is_dir e dir"
    and d3: "\<forall>ext \<in> set (keys SUPPORTED_EXTENSIONS). fs_entries e dir ext = Inr entries"
    by simp_all
  from scan_supported [OF d1 d2 d3 f]
  obtain n where n: "n \<le> length (supported_files entries)"
    and r: "process_directory_try e self dir t w = (Some x, st\<lparr>total := n\<rparr>, w')"
    by blast
  from r have "process_directory e self dir t w =
               ((case console e (''Error processing directory '' @ dir @ '': '' @ str_exn x) of
                   None \<Rightarrow> Inr (st\<lparr>total := n\<rparr>) | Some y \<Rightarrow> Inl y), w')"
    by (simp add: process_directory_def split: option.split)
  with n r show "\<exists>n \<le> length (supported_files entries).
             process_directory_try e self dir t w = (Some x, st\<lparr>total := n\<rparr>, w') \<and>
             process_directory e self dir t w =
               ((case console e (''Error processing directory '' @ dir @ '': '' @ str_exn x) of
                   None \<Rightarrow> Inr (st\<lparr>total := n\<rparr>) | Some y \<Rightarrow> Inl y), w')"
    by blast
next
  show "\<forall>q \<in> set entries.
      (\<forall>ext \<in> set (keys SUPPORTED_EXTENSIONS). \<not> suffix ext (path_name q)) \<longrightarrow>
        q \<notin> set (supported_files entries)"
    by (auto simp: supported_files_def)
qed

theorem ingest_errors_witness:
  "fs_exists demo_env ''docs'' \<and> fs_is_dir demo_env ''docs'' \<and>
   fs_entries demo_env ''docs'' ''.pdf'' =
     Inr [''docs/a.txt'', ''docs/bad.txt'', ''docs/c.md'', ''docs/skip.docx''] \<and>
   fs_entries demo_env ''docs'' ''.txt'' =
     Inr [''docs/a.txt'', ''docs/bad.txt'', ''docs/c.md'', ''docs/skip.docx''] \<and>
   fs_entries demo_env ''docs'' ''.md'' =
     Inr [''docs/a.txt'', ''docs/bad.txt'', ''docs/c.md'', ''docs/skip.docx''] \<and>
   \<not> fs_exists demo_env ''missing.txt'' \<and>
   process_document_try demo_env Processor ''missing.txt'' None empty_world =
     (Inl (FileNotFoundError ''File not found: missing.txt''), empty_world) \<and>
   process_document demo_env Processor ''missing.txt'' None empty_world =
     (Inr False, empty_world) \<and>
   fs_exists demo_env ''docs/skip.docx'' \<and>
   process_document_try demo_env Processor ''docs/skip.docx'' None empty_world =
     (Inl (ValueError (''Unsupported file type: .docx. Supported types: [''
             @ [CHR 0x27] @ ''.pdf'' @ [CHR 0x27] @ '', '' @ [CHR 0x27] @ ''.txt'' @ [CHR 0x27]
             @ '', '' @ [CHR 0x27] @ ''.md'' @ [CHR 0x27] @ '']'')), empty_world) \<and>
   fst (process_directory demo_env Processor ''docs'' None empty_world) =
     Inr \<lparr>total = 3, successful = 2, failed = 1\<rparr> \<and>
   ''docs/skip.docx'' \<notin> set (supported_files
      [''docs/a.txt'', ''docs/bad.txt'', ''docs/c.md'', ''docs/skip.docx'']) \<and>
   fs_entries strict_env ''inbox'' ''.pdf'' = Inr [latin1_file, ''inbox/b.txt''] \<and>
   fs_entries strict_env ''inbox'' ''.txt'' = Inr [latin1_file, ''inbox/b.txt''] \<and>
   fs_entries strict_env ''inbox'' ''.md'' = Inr [latin1_file, ''inbox/b.txt''] \<and>
   (\<exists>n \<le> 2. process_directory strict_env Processor ''inbox'' None empty_world =
      (Inr \<lparr>total = n, successful = 0, failed = 0\<rparr>, empty_world))"
proof -
  let ?entries = "[''docs/a.txt'', ''docs/bad.txt'', ''docs/c.md'', ''docs/skip.docx'']"
  let ?inbox = "[latin1_file, ''inbox/b.txt'']"
  let ?x = "ExternalError ''UnicodeEncodeError: surrogates not allowed''"
  have h: "\<forall>ext \<in> set (keys SUPPORTED_EXTENSIONS). fs_entries demo_env ''docs'' ext = Inr ?entries"
    by (simp add: demo_dirs)
  have m: "\<not> fs_exists demo_env ''missing.txt''" "fs_exists demo_env ''docs/skip.docx''"
    by (simp_all add: demo_env_def)
  have u: "lower (path_suffix ''docs/skip.docx'') \<notin> set (keys SUPPORTED_EXTENSIONS)"
    by (simp add: demo_suffixes SUPPORTED_EXTENSIONS_def keys_def)
  note missing = ingest_errors [where e = demo_env and dir = "''docs''" and entries = ?entries
      and p = "''missing.txt''" and self = Processor and t = None and w = empty_world]
  note skip = ingest_errors [where e = demo_env and dir = "''docs''" and entries = ?entries
      and p = "''docs/skip.docx''" and self = Processor and t = None and w = empty_world]
  from missing m(1) have a:
    "process_document_try demo_env Processor ''missing.txt'' None empty_world =
       (Inl (FileNotFoundError ''File not found: missing.txt''), empty_world)"
    "process_document demo_env Processor ''missing.txt'' None empty_world =
       (Inr False, empty_world)"
    by (simp_all add: demo_dirs(8))
  from skip m(2) u have b:
    "process_document_try demo_env Processor ''docs/skip.docx'' None empty_world =
     (Inl (ValueError (''Unsupported file type: .docx. Supported types: [''
             @ [CHR 0x27] @ ''.pdf'' @ [CHR 0x27] @ '', '' @ [CHR 0x27] @ ''.txt'' @ [CHR 0x27]
             @ '', '' @ [CHR 0x27] @ ''.md'' @ [CHR 0x27] @ '']'')), empty_world)"
    by (simp add: demo_suffixes repr_keys_def SUPPORTED_EXTENSIONS_def keys_def)
  obtain w' where pf: "process_files demo_env Processor None (supported_files ?entries)
      (\<lparr>total = length (supported_files ?entries), successful = 0, failed = 0\<rparr>, empty_world) =
      (None, \<lparr>total = 3, successful = 2, failed = 1\<rparr>, w')"
    by (simp add: demo_supported demo_ok demo_fail(2))
  from missing demo_dirs(1,2) h
  have "\<forall>st w'. process_files demo_env Processor None (supported_files ?entries)
      (\<lparr>total = length (supported_files ?entries), successful = 0, failed = 0\<rparr>, empty_world) =
      (None, st, w') \<longrightarrow> process_directory demo_env Processor ''docs'' None empty_world =
      (Inr st, w')"
    by (elim conjE) simp
  with pf have "process_directory demo_env Processor ''docs'' None empty_world =
      (Inr \<lparr>total = 3, successful = 2, failed = 1\<rparr>, w')" by simp
  then have c: "fst (process_directory demo_env Processor ''docs'' None empty_world) =
      Inr \<lparr>total = 3, successful = 2, failed = 1\<rparr>" by simp
  have d: "''docs/skip.docx'' \<notin> set (supported_files ?entries)"
    by (simp add: demo_supported)
  have si: "supported_files ?inbox = ?inbox"
    by (simp add: supported_files_def SUPPORTED_EXTENSIONS_def keys_def latin1_facts)
  have hs: "\<forall>ext \<in> set (keys SUPPORTED_EXTENSIONS). fs_entries strict_env ''inbox'' ext = Inr ?inbox"
    by (simp add: strict_parts)
  have ds: "fs_exists strict_env ''inbox''" "fs_is_dir strict_env ''inbox''"
    by (simp_all add: strict_parts)
  have ps: "process_files strict_env Processor None (supported_files ?inbox)
      (\<lparr>total = length (supported_files ?inbox), successful = 0, failed = 0\<rparr>, empty_world) =
      (Some ?x, \<lparr>total = 2, successful = 0, failed = 0\<rparr>, empty_world)"
    by (simp add: si strict_files)
  note inbox = ingest_errors [where e = strict_env and dir = "''inbox''" and entries = ?inbox
      and p = "''missing.txt''" and self = Processor and t = None and w = empty_world]
  from inbox ds hs
  have "\<forall>x st w'. process_files strict_env Processor None (supported_files ?inbox)
      (\<lparr>total = length (supported_files ?inbox), successful = 0, failed = 0\<rparr>, empty_world) =
      (Some x, st, w') \<longrightarrow>
      (\<exists>n \<le> length (supported_files ?inbox).
         process_directory_try strict_env Processor ''inbox'' None empty_world =
           (Some x, st\<lparr>total := n\<rparr>, w') \<and>
         process_directory strict_env Processor ''inbox'' None empty_world =
           ((case console strict_env (''Error processing directory '' @ ''inbox'' @ '': ''
                    @ str_exn x) of
               None \<Rightarrow> Inr (st\<lparr>total := n\<rparr>) | Some y \<Rightarrow> Inl y), w'))"
    by (elim conjE) simp
  with ps obtain n where n: "n \<le> length (supported_files ?inbox)"
    and r: "process_directory strict_env Processor ''inbox'' None empty_world =
           ((case console strict_env (''Error processing directory '' @ ''inbox'' @ '': ''
                    @ str_exn ?x) of
               None \<Rightarrow> Inr (\<lparr>total = 2, successful = 0, failed = 0\<rparr>\<lparr>total := n\<rparr>)
             | Some y \<Rightarrow> Inl y), empty_world)"
    by blast
  from n have n2: "n \<le> 2" by (simp add: si)
  from r have r': "process_directory strict_env Processor ''inbox'' None empty_world =
      (Inr \<lparr>total = n, successful = 0, failed = 0\<rparr>, empty_world)"
    by (simp add: strict_parts)
  from n2 r' have e: "\<exists>n \<le> 2. process_directory strict_env Processor ''inbox'' None empty_world =
      (Inr \<lparr>total = n, successful = 0, failed = 0\<rparr>, empty_world)" by blast
  from a b c d e m show ?thesis by (simp add: demo_dirs strict_parts)
qed

text \<open>
  C10.  With a console that cannot encode the name of a file, the statistics
  \<open>process_directory\<close> returns for the directory of that file have \<open>total\<close> 2 and
  \<open>successful\<close> and \<open>failed\<close> 0; and for a path that does not exist and that the console
  cannot encode, the \<open>print\<close> in the handler of \<open>process_directory\<close> raises, so that
  \<open>process_directory\<close> raises.
\<close>

theorem statistics_out_of_balance:
  "fst (process_directory strict_env Processor ''inbox'' None empty_world) =
     Inr \<lparr>total = 2, successful = 0, failed = 0\<rparr> \<and>
   \<not> fs_exists strict_env latin1_dir \<and>
   process_directory strict_env Processor latin1_dir None empty_world =
     (Inl (ExternalError ''UnicodeEncodeError: surrogates not allowed''), empty_world)"
proof -
  have a: "fst (process_directory strict_env Processor ''inbox'' None empty_world) =
     Inr \<lparr>total = 2, successful = 0, failed = 0\<rparr>"
    by (simp add: strict_scan process_directory_def strict_parts)
  have b: "\<not> fs_exists strict_env latin1_dir"
    by (simp add: strict_parts latin1_facts)
  then have c: "process_directory_try strict_env Processor latin1_dir None empty_world =
     (Some (NotADirectoryError (''Directory not found: '' @ latin1_dir)),
      \<lparr>total = 0, successful = 0, failed = 0\<rparr>, empty_world)"
    by (simp add: process_directory_try_def)
  have d: "process_directory strict_env Processor latin1_dir None empty_world =
     (Inl (ExternalError ''UnicodeEncodeError: surrogates not allowed''), empty_world)"
    by (simp add: process_directory_def c strict_parts latin1_facts)
  from a b d show ?thesis by simp
qed

end
